theory Spec2Isabelle
  imports Main
begin

section \<open>Cards and scoring (sabacc\_game.py)\<close>

text \<open>
  A card is the Python tuple \<open>(rank, suit)\<close> of two strings; a hand is a list of cards.
\<close>

type_synonym card = "string \<times> string"
type_synonym hand = "card list"

text \<open>
  The exceptions the modelled code can raise. \<open>NoneStored\<close> is not a Python exception: it
  marks the paths on which the code takes the \<open>None\<close> that \<open>Deck.draw\<close> returns on an empty
  pile and stores it where a card belongs. The lists of this model hold cards only, so the
  model stops there.
\<close>

datatype error = ValueError | RuntimeError | TypeError | ZeroDivisionError | NoneStored

text \<open>
  \<open>int(rank)\<close>, base 10, on a string whose characters are code points below 256: white
  space around the number is dropped (the six ASCII white space characters, and the
  next-line and no-break space characters), a sign may come first, and the digits may be
  separated by single underscores. Anything else raises \<open>ValueError\<close>.
\<close>

definition digit_value :: "char \<Rightarrow> int option" where
  "digit_value c = map_of (zip ''0123456789'' [0, 1, 2, 3, 4, 5, 6, 7, 8, 9]) c"

definition is_space :: "char \<Rightarrow> bool" where
  "is_space c =
     (c \<in> set [CHR 0x09, CHR 0x0A, CHR 0x0B, CHR 0x0C, CHR 0x0D, CHR 0x20, CHR 0x85, CHR 0xA0])"

definition strip :: "string \<Rightarrow> string" where
  "strip s = rev (dropWhile is_space (rev (dropWhile is_space s)))"

text \<open>
  The digits after the sign; \<open>after_digit\<close> tells whether the previous character was a
  digit, which an underscore and the end of the string both require.
\<close>

fun py_int_digits :: "string \<Rightarrow> bool \<Rightarrow> int \<Rightarrow> int option" where
  "py_int_digits [] after_digit acc = (if after_digit then Some acc else None)"
| "py_int_digits (c # cs) after_digit acc =
     (if c = CHR ''_'' then (if after_digit then py_int_digits cs False acc else None)
      else (case digit_value c of
              None \<Rightarrow> None
            | Some d \<Rightarrow> py_int_digits cs True (10 * acc + d)))"

definition py_int :: "string \<Rightarrow> error + int" where
  "py_int s =
     (case strip s of
        [] \<Rightarrow> Inl ValueError
      | c # cs \<Rightarrow>
          (if c = CHR ''-'' then
             (case py_int_digits cs False 0 of None \<Rightarrow> Inl ValueError | Some k \<Rightarrow> Inr (- k))
           else if c = CHR ''+'' then
             (case py_int_digits cs False 0 of None \<Rightarrow> Inl ValueError | Some k \<Rightarrow> Inr k)
           else
             (case py_int_digits (c # cs) False 0 of None \<Rightarrow> Inl ValueError | Some k \<Rightarrow> Inr k)))"

text \<open>
  \<open>calculate_hand_value\<close>, first loop: the running \<open>(value, num_aces, has_lovers)\<close>
  after one more card.
\<close>

definition negative_trionfi :: "string list" where
  "negative_trionfi = [''2'', ''3'', ''8'', ''11'', ''13'', ''14'', ''15'', ''16'', ''17'']"

definition count_card :: "card \<Rightarrow> int \<times> nat \<times> bool \<Rightarrow> error + (int \<times> nat \<times> bool)" where
  "count_card c acc =
     (case c of (rank, suit) \<Rightarrow> case acc of (v, n, l) \<Rightarrow>
        if suit = ''T'' then
          (if rank = ''6'' then Inr (v, n, True)
           else if rank \<in> set negative_trionfi then
             (case py_int rank of Inl e \<Rightarrow> Inl e | Inr k \<Rightarrow> Inr (v - k, n, l))
           else Inr (v, n, l))
        else
          (if rank = ''1'' then Inr (v + 1, Suc n, l)
           else if rank = ''K'' then Inr (v + 14, n, l)
           else if rank = ''Q'' then Inr (v + 13, n, l)
           else if rank = ''N'' then Inr (v + 12, n, l)
           else if rank = ''P'' then Inr (v + 11, n, l)
           else (case py_int rank of Inl e \<Rightarrow> Inl e | Inr k \<Rightarrow> Inr (v + k, n, l))))"

fun count_cards :: "hand \<Rightarrow> int \<times> nat \<times> bool \<Rightarrow> error + (int \<times> nat \<times> bool)" where
  "count_cards [] acc = Inr acc"
| "count_cards (c # cs) acc =
     (case count_card c acc of Inl e \<Rightarrow> Inl e | Inr acc' \<Rightarrow> count_cards cs acc')"

text \<open>\<open>abs(abs(value) - 23)\<close>, the distance of a hand value from the target.\<close>

definition distance_from_23 :: "int \<Rightarrow> int" where
  "distance_from_23 v = \<bar>\<bar>v\<bar> - 23\<bar>"

text \<open>One iteration of \<open>for _ in range(num_aces)\<close>, and the loop itself.\<close>

definition ace_step :: "int \<Rightarrow> int" where
  "ace_step v =
     (let current_distance = \<bar>\<bar>v\<bar> - 23\<bar>;
          new_value = v + 10;
          new_distance = \<bar>\<bar>new_value\<bar> - 23\<bar>
      in if new_distance < current_distance \<and> \<bar>new_value\<bar> \<le> 23 then v + 10 else v)"

fun optimize_aces :: "nat \<Rightarrow> int \<Rightarrow> int" where
  "optimize_aces 0 v = v"
| "optimize_aces (Suc n) v = optimize_aces n (ace_step v)"

text \<open>
  The Lovers. A distance is an integer or \<open>float('inf')\<close>; \<open>dist_less\<close> is Python's \<open><\<close>
  on such values.
\<close>

datatype distance = Finite int | Infinity

fun dist_less :: "distance \<Rightarrow> distance \<Rightarrow> bool" where
  "dist_less (Finite a) (Finite b) = (a < b)"
| "dist_less (Finite a) Infinity = True"
| "dist_less Infinity d = False"

definition resolve_lovers :: "int \<Rightarrow> int" where
  "resolve_lovers v =
     (let distance_plus = (if \<bar>v + 6\<bar> \<le> 23 then Finite \<bar>\<bar>v + 6\<bar> - 23\<bar> else Infinity);
          distance_minus = (if \<bar>v - 6\<bar> \<le> 23 then Finite \<bar>\<bar>v - 6\<bar> - 23\<bar> else Infinity)
      in if dist_less distance_plus distance_minus then v + 6 else v - 6)"

definition calculate_hand_value :: "hand \<Rightarrow> error + (int \<times> bool)" where
  "calculate_hand_value h =
     (case count_cards h (0, 0, False) of
        Inl e \<Rightarrow> Inl e
      | Inr (v, n, l) \<Rightarrow>
          (let v1 = optimize_aces n v;
               v2 = (if l then resolve_lovers v1 else v1)
           in Inr (v2, \<bar>v2\<bar> > 23)))"

text \<open>Python's \<open>str(n)\<close> for a non-negative integer.\<close>

definition digit_char :: "nat \<Rightarrow> char" where
  "digit_char d = ''0123456789'' ! d"

function py_str :: "nat \<Rightarrow> string" where
  "py_str n = (if n < 10 then [digit_char n] else py_str (n div 10) @ [digit_char (n mod 10)])"
  by pat_completeness auto
termination
  by (relation "measure id") auto

declare py_str.simps [simp del]

section \<open>Deck, players and game state\<close>

text \<open>\<open>Deck._generate_deck\<close>: the 22 trionfi, then four suits of ten numbers and four courts.\<close>

definition suit_cards :: "string \<Rightarrow> card list" where
  "suit_cards suit =
     map (\<lambda>rank. (py_str rank, suit)) [1..<11] @ map (\<lambda>rank. (rank, suit)) [''P'', ''N'', ''Q'', ''K'']"

definition generate_deck :: "card list" where
  "generate_deck =
     map (\<lambda>rank. (py_str rank, ''T'')) [0..<22] @ concat (map suit_cards [''W'', ''C'', ''S'', ''D''])"

text \<open>
  \<open>class Player\<close>. \<open>is_hermit\<close> is read with \<open>getattr(p, 'is_hermit', False)\<close>, so a player
  on which the attribute was never set reads as \<open>False\<close>.
\<close>

record player =
  name :: string
  credits :: int
  is_human :: bool
  hand :: hand
  current_bet :: int
  has_folded :: bool
  has_drawn :: bool
  has_acted :: bool
  is_hermit :: bool

text \<open>The dictionary \<open>GameState.tiebreaker_info\<close>, one constructor per \<open>'type'\<close>.\<close>

datatype tiebreaker =
    High_card (tied_players: "string list") (tied_values: "int list") (winner_high_card: int)
  | Suit (tied_players: "string list") (tied_values: "int list") (winner_suit: string)

text \<open>
  \<open>class GameState\<close>. The field \<open>table_bet\<close> is \<open>GameState.current_bet\<close> (the name
  \<open>current_bet\<close> is taken by the player's field); \<open>draw_pile\<close> is \<open>draw_pile.cards\<close>, front first.
  A player object is referred to by its seat, the index into \<open>players\<close>.
\<close>

record game_state =
  players :: "player list"
  draw_pile :: "card list"
  discard_pile :: "card list"
  community_cards :: "card list"
  removed_pile :: "card list"
  pot :: int
  table_bet :: int
  min_bet :: int
  dealer_index :: nat
  hand_number :: nat
  hands_face_up :: bool
  judgment_played :: bool
  tiebreaker_info :: "tiebreaker option"

definition map_player :: "nat \<Rightarrow> (player \<Rightarrow> player) \<Rightarrow> game_state \<Rightarrow> game_state" where
  "map_player i f s = s\<lparr>players := (players s)[i := f (players s ! i)]\<rparr>"

definition new_player :: "string \<Rightarrow> int \<Rightarrow> bool \<Rightarrow> player" where
  "new_player nm starting_credits human =
     \<lparr>name = nm, credits = starting_credits, is_human = human, hand = [], current_bet = 0,
      has_folded = False, has_drawn = False, has_acted = False, is_hermit = False\<rparr>"

definition reset_for_new_hand :: "player \<Rightarrow> player" where
  "reset_for_new_hand p =
     p\<lparr>hand := [], current_bet := 0, has_folded := False, has_drawn := False,
       has_acted := False, is_hermit := False\<rparr>"

text \<open>\<open>GameState.__init__\<close>: the first name is the human seat.\<close>

definition new_game :: "string list \<Rightarrow> int \<Rightarrow> int \<Rightarrow> game_state" where
  "new_game player_names starting_credits mb =
     \<lparr>players = map (\<lambda>i. new_player (player_names ! i) starting_credits (i = 0))
                    [0..<length player_names],
      draw_pile = generate_deck, discard_pile = [], community_cards = [], removed_pile = [],
      pot = 0, table_bet = 0, min_bet = mb, dealer_index = 0, hand_number = 0,
      hands_face_up = False, judgment_played = False, tiebreaker_info = None\<rparr>"

text \<open>
  \<open>start_new_hand\<close>. \<open>random.shuffle\<close> is the parameter \<open>shuffle\<close>: the permutation the
  random source produces.
\<close>

definition start_new_hand :: "(card list \<Rightarrow> card list) \<Rightarrow> game_state \<Rightarrow> game_state" where
  "start_new_hand shuffle s =
     s\<lparr>hand_number := hand_number s + 1, pot := 0, table_bet := 0, hands_face_up := False,
       judgment_played := False, players := map reset_for_new_hand (players s),
       draw_pile := shuffle generate_deck, discard_pile := [], community_cards := [],
       removed_pile := []\<rparr>"

definition total_cards_accounted_for :: "game_state \<Rightarrow> nat" where
  "total_cards_accounted_for s =
     length (draw_pile s) + length (discard_pile s) + length (community_cards s)
     + sum_list (map (\<lambda>p. length (hand p)) (players s)) + length (removed_pile s)"

section \<open>Pile management\<close>

definition reshuffle_discard_into_draw ::
  "(card list \<Rightarrow> card list) \<Rightarrow> game_state \<Rightarrow> game_state" where
  "reshuffle_discard_into_draw shuffle s =
     s\<lparr>draw_pile := shuffle (draw_pile s @ discard_pile s), discard_pile := []\<rparr>"

definition ensure_cards_available ::
  "(card list \<Rightarrow> card list) \<Rightarrow> int \<Rightarrow> game_state \<Rightarrow> error + game_state" where
  "ensure_cards_available shuffle num_needed s =
     (if int (length (draw_pile s)) < num_needed then
        (if length (discard_pile s) > 0 then Inr (reshuffle_discard_into_draw shuffle s)
         else Inl RuntimeError)
      else Inr s)"

text \<open>\<open>Deck.draw\<close>: the front card, or \<open>None\<close> on an empty pile.\<close>

definition draw :: "game_state \<Rightarrow> card option \<times> game_state" where
  "draw s = (case draw_pile s of [] \<Rightarrow> (None, s) | c # cs \<Rightarrow> (Some c, s\<lparr>draw_pile := cs\<rparr>))"

text \<open>\<open>for _ in range(k): drawn.append(self.draw_pile.draw())\<close>\<close>

fun draw_cards :: "nat \<Rightarrow> game_state \<Rightarrow> error + (card list \<times> game_state)" where
  "draw_cards 0 s = Inr ([], s)"
| "draw_cards (Suc k) s =
     (case draw s of
        (None, _) \<Rightarrow> Inl NoneStored
      | (Some c, s1) \<Rightarrow>
          (case draw_cards k s1 of Inl e \<Rightarrow> Inl e | Inr (cs, s2) \<Rightarrow> Inr (c # cs, s2)))"

definition draw_from_draw_pile ::
  "(card list \<Rightarrow> card list) \<Rightarrow> nat \<Rightarrow> game_state \<Rightarrow> error + (card \<times> game_state)" where
  "draw_from_draw_pile shuffle i s =
     (case ensure_cards_available shuffle 1 s of
        Inl e \<Rightarrow> Inl e
      | Inr s1 \<Rightarrow>
          (case draw s1 of
             (None, _) \<Rightarrow> Inl NoneStored
           | (Some c, s2) \<Rightarrow>
               Inr (c, map_player i (\<lambda>p. p\<lparr>hand := hand p @ [c], has_drawn := True\<rparr>) s2)))"

definition draw_from_discard_pile ::
  "nat \<Rightarrow> int \<Rightarrow> game_state \<Rightarrow> error + (card list \<times> game_state)" where
  "draw_from_discard_pile i card_index s =
     (if discard_pile s = [] then Inl ValueError
      else if card_index < 0 \<or> card_index \<ge> int (length (discard_pile s)) then Inl ValueError
      else
        (let cards_taken = drop (nat card_index) (discard_pile s);
             s1 = s\<lparr>discard_pile := take (nat card_index) (discard_pile s)\<rparr>
         in Inr (cards_taken,
                 map_player i (\<lambda>p. p\<lparr>hand := hand p @ cards_taken, has_drawn := True\<rparr>) s1)))"

text \<open>\<open>list.pop(k)\<close> for an index already checked to be in range: the list without it.\<close>

definition pop_at :: "nat \<Rightarrow> 'a list \<Rightarrow> 'a list" where
  "pop_at k xs = take k xs @ drop (Suc k) xs"

definition swap_with_community ::
  "nat \<Rightarrow> int \<Rightarrow> int \<Rightarrow> game_state \<Rightarrow> error + ((card \<times> card) \<times> game_state)" where
  "swap_with_community i hand_card_index community_card_index s =
     (let p = players s ! i in
      if hand_card_index < 0 \<or> hand_card_index \<ge> int (length (hand p)) then Inl ValueError
      else if community_card_index < 0
              \<or> community_card_index \<ge> int (length (community_cards s)) then Inl ValueError
      else
        (let card_from_hand = hand p ! nat hand_card_index;
             card_from_community = community_cards s ! nat community_card_index;
             s1 = s\<lparr>community_cards :=
                      (community_cards s)[nat community_card_index := card_from_hand]\<rparr>
         in Inr ((card_from_hand, card_from_community),
                 map_player i
                   (\<lambda>p. p\<lparr>hand := pop_at (nat hand_card_index) (hand p) @ [card_from_community],
                           has_drawn := True\<rparr>) s1)))"

definition discard_card :: "nat \<Rightarrow> int \<Rightarrow> game_state \<Rightarrow> error + (card \<times> game_state)" where
  "discard_card i card_index s =
     (let p = players s ! i in
      if card_index < 0 \<or> card_index \<ge> int (length (hand p)) then Inl ValueError
      else
        (let c = hand p ! nat card_index;
             s1 = map_player i (\<lambda>p. p\<lparr>hand := pop_at (nat card_index) (hand p)\<rparr>) s
         in Inr (c, s1\<lparr>discard_pile := discard_pile s1 @ [c]\<rparr>)))"

text \<open>One \<open>player.hand.append(self.draw_pile.draw())\<close>, and the dealing loops built from it.\<close>

definition deal_to_hand :: "nat \<Rightarrow> game_state \<Rightarrow> error + game_state" where
  "deal_to_hand i s =
     (case draw s of
        (None, _) \<Rightarrow> Inl NoneStored
      | (Some c, s1) \<Rightarrow> Inr (map_player i (\<lambda>p. p\<lparr>hand := hand p @ [c]\<rparr>) s1))"

fun deal_players :: "nat list \<Rightarrow> game_state \<Rightarrow> error + game_state" where
  "deal_players [] s = Inr s"
| "deal_players (i # rest) s =
     (case deal_to_hand i s of
        Inl e \<Rightarrow> Inl e
      | Inr s1 \<Rightarrow> (case deal_to_hand i s1 of Inl e \<Rightarrow> Inl e | Inr s2 \<Rightarrow> deal_players rest s2))"

definition deal_initial_cards ::
  "(card list \<Rightarrow> card list) \<Rightarrow> game_state \<Rightarrow> error + game_state" where
  "deal_initial_cards shuffle s =
     (case ensure_cards_available shuffle (int (length (players s)) * 2 + 3 + 1) s of
        Inl e \<Rightarrow> Inl e
      | Inr s1 \<Rightarrow>
          (case deal_players [0..<length (players s1)] s1 of
             Inl e \<Rightarrow> Inl e
           | Inr s2 \<Rightarrow>
               (case draw_cards 3 s2 of
                  Inl e \<Rightarrow> Inl e
                | Inr (flop, s3) \<Rightarrow>
                    (case draw (s3\<lparr>community_cards := community_cards s3 @ flop\<rparr>) of
                       (None, _) \<Rightarrow> Inl NoneStored
                     | (Some burned, s4) \<Rightarrow>
                         Inr (s4\<lparr>discard_pile := discard_pile s4 @ [burned]\<rparr>)))))"

text \<open>\<open>deal_turn\<close> (and \<open>deal_river\<close>, which has the same body): burn one, turn one.\<close>

definition deal_turn :: "(card list \<Rightarrow> card list) \<Rightarrow> game_state \<Rightarrow> error + game_state" where
  "deal_turn shuffle s =
     (case ensure_cards_available shuffle 2 s of
        Inl e \<Rightarrow> Inl e
      | Inr s1 \<Rightarrow>
          (case draw s1 of
             (None, _) \<Rightarrow> Inl NoneStored
           | (Some burned, s2) \<Rightarrow>
               (case draw (s2\<lparr>discard_pile := discard_pile s2 @ [burned]\<rparr>) of
                  (None, _) \<Rightarrow> Inl NoneStored
                | (Some c, s3) \<Rightarrow> Inr (s3\<lparr>community_cards := community_cards s3 @ [c]\<rparr>))))"

definition reset_for_betting_round :: "game_state \<Rightarrow> game_state" where
  "reset_for_betting_round s =
     s\<lparr>players := map (\<lambda>p. p\<lparr>has_drawn := False, has_acted := False, current_bet := 0\<rparr>) (players s),
       table_bet := 0\<rparr>"

section \<open>Betting\<close>

text \<open>
  One blind of \<open>collect_blinds\<close>: the seat pays \<open>amount\<close>, or everything it has when that is
  less. Returns what was posted.
\<close>

definition post_blind :: "nat \<Rightarrow> int \<Rightarrow> game_state \<Rightarrow> int \<times> game_state" where
  "post_blind i amount s =
     (let p = players s ! i in
      if credits p \<ge> amount then
        (amount,
         (map_player i (\<lambda>p. p\<lparr>credits := credits p - amount, current_bet := amount\<rparr>) s)
           \<lparr>pot := pot s + amount\<rparr>)
      else
        (credits p,
         (map_player i (\<lambda>p. p\<lparr>current_bet := credits p, credits := 0\<rparr>) s)
           \<lparr>pot := pot s + credits p\<rparr>))"

definition collect_blinds :: "game_state \<Rightarrow> error + game_state" where
  "collect_blinds s =
     (let num_players = length (players s) in
      if num_players = 0 then Inl ZeroDivisionError
      else
        (let sb_index = (dealer_index s + 1) mod num_players;
             sb_amount = min_bet s div 2;
             (sb_posted, s1) = post_blind sb_index sb_amount s;
             bb_index = (dealer_index s + 2) mod num_players;
             bb_amount = min_bet s;
             (bb_posted, s2) = post_blind bb_index bb_amount s1
         in Inr (s2\<lparr>table_bet := bb_posted\<rparr>)))"

definition player_fold :: "nat \<Rightarrow> game_state \<Rightarrow> game_state" where
  "player_fold i s = map_player i (\<lambda>p. p\<lparr>has_folded := True, has_acted := True\<rparr>) s"

definition player_call :: "nat \<Rightarrow> game_state \<Rightarrow> int \<times> game_state" where
  "player_call i s =
     (let p = players s ! i;
          amount_to_call = table_bet s - current_bet p
      in if amount_to_call \<le> 0 then (0, map_player i (\<lambda>p. p\<lparr>has_acted := True\<rparr>) s)
         else
           (let amount_to_call = (if credits p < amount_to_call then credits p else amount_to_call)
            in (amount_to_call,
                (map_player i
                   (\<lambda>p. p\<lparr>credits := credits p - amount_to_call,
                           current_bet := current_bet p + amount_to_call,
                           has_acted := True\<rparr>) s)
                  \<lparr>pot := pot s + amount_to_call\<rparr>)))"

text \<open>
  The loop of \<open>player_raise\<close> over \<open>self.players\<close>: every seat other than the raiser's that
  has not folded and has credits left must act again.
\<close>

definition reopen_action :: "nat \<Rightarrow> player list \<Rightarrow> player list" where
  "reopen_action i ps =
     map (\<lambda>j. let p = ps ! j in
                if j \<noteq> i \<and> \<not> has_folded p \<and> credits p > 0 then p\<lparr>has_acted := False\<rparr> else p)
         [0..<length ps]"

definition player_raise :: "nat \<Rightarrow> int \<Rightarrow> game_state \<Rightarrow> int \<times> game_state" where
  "player_raise i raise_amount s =
     (let p = players s ! i;
          amount_to_call = table_bet s - current_bet p;
          total_bet = amount_to_call + raise_amount;
          total_bet = (if credits p < total_bet then credits p else total_bet);
          s1 = (map_player i
                  (\<lambda>p. p\<lparr>credits := credits p - total_bet,
                          current_bet := current_bet p + total_bet\<rparr>) s)
                 \<lparr>pot := pot s + total_bet\<rparr>;
          s2 = s1\<lparr>table_bet := current_bet (players s1 ! i)\<rparr>;
          s3 = s2\<lparr>players := reopen_action i (players s2)\<rparr>
      in (total_bet, map_player i (\<lambda>p. p\<lparr>has_acted := True\<rparr>) s3))"

text \<open>
  \<open>is_betting_round_complete\<close>: the \<open>for\<close> loop over the non-folded players, with its two
  early returns and its \<open>continue\<close>, in the source's order.
\<close>

fun all_acted_and_matched :: "int \<Rightarrow> player list \<Rightarrow> bool" where
  "all_acted_and_matched bet [] = True"
| "all_acted_and_matched bet (p # ps) =
     (if \<not> has_acted p then False
      else if credits p = 0 then all_acted_and_matched bet ps
      else if current_bet p < bet then False
      else all_acted_and_matched bet ps)"

definition is_betting_round_complete :: "game_state \<Rightarrow> bool" where
  "is_betting_round_complete s =
     (let active_players = filter (\<lambda>p. \<not> has_folded p) (players s) in
      if length active_players \<le> 1 then True
      else all_acted_and_matched (table_bet s) active_players)"

text \<open>\<open>get_active_players\<close>, as the seats of the players it returns.\<close>

definition get_active_players :: "game_state \<Rightarrow> nat list" where
  "get_active_players s = filter (\<lambda>i. \<not> has_folded (players s ! i)) [0..<length (players s)]"

text \<open>
  Round completion in the words of the specification, for comparison with
  \<open>is_betting_round_complete\<close>: fewer than two non-folded seats remain, or every
  non-folded seat that is not all-in (has credits left) has acted and has matched the
  table bet.
\<close>

definition round_complete_as_specified :: "game_state \<Rightarrow> bool" where
  "round_complete_as_specified s =
     (length (filter (\<lambda>p. \<not> has_folded p) (players s)) < 2
      \<or> list_all (\<lambda>p. has_folded p \<or> credits p = 0
                        \<or> (has_acted p \<and> current_bet p = table_bet s)) (players s))"

section \<open>Showdown\<close>

text \<open>\<open>get_highest_card_in_hand\<close>: the value of one card for tie-breaking, then the scan.\<close>

definition tiebreak_negative_trionfi :: "string list" where
  "tiebreak_negative_trionfi =
     [''2'', ''3'', ''6'', ''8'', ''11'', ''13'', ''14'', ''15'', ''16'', ''17'']"

definition card_value :: "card \<Rightarrow> error + int" where
  "card_value c =
     (case c of (rank, suit) \<Rightarrow>
        if suit = ''T'' then
          (if rank \<in> set tiebreak_negative_trionfi then
             (case py_int rank of Inl e \<Rightarrow> Inl e | Inr k \<Rightarrow> Inr (- k))
           else Inr 0)
        else
          (if rank = ''1'' then Inr 11
           else if rank = ''K'' then Inr 14
           else if rank = ''Q'' then Inr 13
           else if rank = ''N'' then Inr 12
           else if rank = ''P'' then Inr 11
           else py_int rank))"

fun highest_card_scan :: "hand \<Rightarrow> int \<times> string \<Rightarrow> error + (int \<times> string)" where
  "highest_card_scan [] best = Inr best"
| "highest_card_scan (c # cs) (highest_value, highest_suit) =
     (case card_value c of
        Inl e \<Rightarrow> Inl e
      | Inr v \<Rightarrow>
          highest_card_scan cs
            (if v > highest_value then (v, snd c) else (highest_value, highest_suit)))"

definition get_highest_card_in_hand :: "hand \<Rightarrow> error + (int \<times> string)" where
  "get_highest_card_in_hand h = highest_card_scan h (- 999, '''')"

text \<open>
  \<open>determine_winner\<close>. The entries of \<open>player_scores\<close> are \<open>(seat, value, distance)\<close>, those
  of \<open>player_high_cards\<close> are \<open>(seat, high card value, high card suit)\<close>. \<open>list.sort\<close> is
  stable, also with \<open>reverse=True\<close>; \<open>sort_key\<close> is the stable insertion sort, and the
  descending sorts negate the key.
\<close>

fun score_players :: "game_state \<Rightarrow> nat list \<Rightarrow> error + (nat \<times> int \<times> int) list" where
  "score_players s [] = Inr []"
| "score_players s (i # rest) =
     (case calculate_hand_value (hand (players s ! i)) of
        Inl e \<Rightarrow> Inl e
      | Inr (v, is_busted) \<Rightarrow>
          (case score_players s rest of
             Inl e \<Rightarrow> Inl e
           | Inr scores \<Rightarrow>
               Inr (if \<not> is_busted then (i, v, \<bar>\<bar>v\<bar> - 23\<bar>) # scores else scores)))"

fun high_cards :: "game_state \<Rightarrow> (nat \<times> int \<times> int) list \<Rightarrow> error + (nat \<times> int \<times> string) list" where
  "high_cards s [] = Inr []"
| "high_cards s ((i, v, d) # rest) =
     (case get_highest_card_in_hand (hand (players s ! i)) of
        Inl e \<Rightarrow> Inl e
      | Inr (high_card_value, high_card_suit) \<Rightarrow>
          (case high_cards s rest of
             Inl e \<Rightarrow> Inl e
           | Inr hcs \<Rightarrow> Inr ((i, high_card_value, high_card_suit) # hcs)))"

definition suit_ranking :: "string \<Rightarrow> int" where
  "suit_ranking suit =
     (if suit = ''W'' then 4 else if suit = ''C'' then 3 else if suit = ''S'' then 2
      else if suit = ''D'' then 1 else 0)"

definition suit_names :: "string \<Rightarrow> string" where
  "suit_names suit =
     (if suit = ''W'' then ''Wands'' else if suit = ''C'' then ''Cups''
      else if suit = ''S'' then ''Swords'' else if suit = ''D'' then ''Disks''
      else if suit = ''T'' then ''Trionfi'' else suit)"

definition determine_winner :: "game_state \<Rightarrow> error + (nat option \<times> game_state)" where
  "determine_winner s0 =
     (let s = s0\<lparr>tiebreaker_info := None\<rparr>;
          active_players = get_active_players s
      in if length active_players = 0 then Inr (None, s)
         else if length active_players = 1 then Inr (Some (hd active_players), s)
         else
           (case score_players s active_players of
              Inl e \<Rightarrow> Inl e
            | Inr player_scores \<Rightarrow>
                if player_scores = [] then Inr (None, s)
                else
                  (let sorted_scores = sort_key (\<lambda>x. snd (snd x)) player_scores;
                       best_distance = snd (snd (hd sorted_scores));
                       tied = filter (\<lambda>ps. snd (snd ps) = best_distance) sorted_scores
                   in if length tied = 1 then Inr (Some (fst (hd tied)), s)
                      else
                        (let tied_names = map (\<lambda>ps. name (players s ! fst ps)) tied;
                             tied_vals = map (\<lambda>ps. fst (snd ps)) tied
                         in case high_cards s tied of
                              Inl e \<Rightarrow> Inl e
                            | Inr player_high_cards \<Rightarrow>
                                (let sorted_high = sort_key (\<lambda>x. - fst (snd x)) player_high_cards;
                                     highest_card_value = fst (snd (hd sorted_high));
                                     still_tied =
                                       filter (\<lambda>phc. fst (snd phc) = highest_card_value) sorted_high
                                 in if length still_tied = 1 then
                                      Inr (Some (fst (hd still_tied)),
                                           s\<lparr>tiebreaker_info :=
                                               Some (High_card tied_names tied_vals
                                                       (fst (snd (hd still_tied))))\<rparr>)
                                    else
                                      (let by_suit =
                                             sort_key (\<lambda>x. - suit_ranking (snd (snd x))) still_tied;
                                           winner = fst (hd by_suit);
                                           winner_suit = snd (snd (hd by_suit))
                                       in Inr (Some winner,
                                               s\<lparr>tiebreaker_info :=
                                                   Some (Suit tied_names tied_vals
                                                           (suit_names winner_suit))\<rparr>)))))))"

section \<open>Trionfi effects (sabacc\_trionfi.py)\<close>

text \<open>
  \<open>class TrionfiEffect\<close>. The handler is a function reference in the source; here it is a
  tag, run by \<open>run_effect\<close> below.
\<close>

datatype effect_id =
    Magician_effect | Emperor_effect | Hierophant_effect | Chariot_effect | Hermit_effect
  | Wheel_of_fortune_effect | Hanged_man_effect | Devil_effect | Moon_effect | Sun_effect
  | Judgment_effect | Universe_effect

record trionfi_effect =
  number :: nat
  title :: string
  effect :: "effect_id option"
  can_play_anytime :: bool
  stays_in_hand :: bool

definition TrionfiEffect ::
  "nat \<Rightarrow> string \<Rightarrow> effect_id option \<Rightarrow> bool \<Rightarrow> bool \<Rightarrow> trionfi_effect" where
  "TrionfiEffect n t e anytime stays =
     \<lparr>number = n, title = t, effect = e, can_play_anytime = anytime, stays_in_hand = stays\<rparr>"

text \<open>The registry \<open>TRIONFI_CARDS\<close>, and \<open>TRIONFI_CARDS.get\<close>.\<close>

definition TRIONFI_CARDS :: "trionfi_effect list" where
  "TRIONFI_CARDS =
     [TrionfiEffect 0 ''The Fool'' None False False,
      TrionfiEffect 1 ''The Magician'' (Some Magician_effect) False False,
      TrionfiEffect 2 ''The High Priestess'' None False False,
      TrionfiEffect 3 ''The Empress'' None False False,
      TrionfiEffect 4 ''The Emperor'' (Some Emperor_effect) False False,
      TrionfiEffect 5 ''The Hierophant'' (Some Hierophant_effect) False False,
      TrionfiEffect 6 ''The Lovers'' None False False,
      TrionfiEffect 7 ''The Chariot'' (Some Chariot_effect) False False,
      TrionfiEffect 8 ''Strength'' None False False,
      TrionfiEffect 9 ''The Hermit'' (Some Hermit_effect) False True,
      TrionfiEffect 10 ''Wheel of Fortune'' (Some Wheel_of_fortune_effect) False False,
      TrionfiEffect 11 ''Justice'' None False False,
      TrionfiEffect 12 ''The Hanged Man'' (Some Hanged_man_effect) True False,
      TrionfiEffect 13 ''Death'' None False False,
      TrionfiEffect 14 ''Temperance'' None False False,
      TrionfiEffect 15 ''The Devil'' (Some Devil_effect) False False,
      TrionfiEffect 16 ''The Tower'' None False False,
      TrionfiEffect 17 ''The Star'' None False False,
      TrionfiEffect 18 ''The Moon'' (Some Moon_effect) False False,
      TrionfiEffect 19 ''The Sun'' (Some Sun_effect) False True,
      TrionfiEffect 20 ''The Last Judgment'' (Some Judgment_effect) False False,
      TrionfiEffect 21 ''The Universe'' (Some Universe_effect) False False]"

definition get_trionfi_effect :: "card \<Rightarrow> trionfi_effect option" where
  "get_trionfi_effect c =
     (case c of (rank, suit) \<Rightarrow>
        if suit = ''T'' then
          (case py_int rank of
             Inl e \<Rightarrow> None
           | Inr k \<Rightarrow> find (\<lambda>t. int (number t) = k) TRIONFI_CARDS)
        else None)"

text \<open>
  What the code asks of its collaborators, as parameters: the random source, the human seat's
  answers to \<open>input()\<close>, and the decisions of \<open>sabacc_ai\<close> that draw on \<open>random\<close>.
  \<^item> \<open>shuffle\<close>: \<open>random.shuffle\<close>;
  \<^item> \<open>human_nullifies s holder n\<close>: whether the human seat \<open>holder\<close>, asked whether to nullify
    trump \<open>n\<close> with The Hanged Man, answers \<open>y\<close>;
  \<^item> \<open>random_below s i p\<close>: whether the \<open>random.random()\<close> drawn for a decision of seat \<open>i\<close> is
    below \<open>p\<close> hundredths;
  \<^item> \<open>devil_target s i\<close>: \<open>None\<close> when seat \<open>i\<close> keeps The Devil, or the position in the list
    of eligible targets of the seat it is given to;
  \<^item> \<open>wheel_keep_input s i drawn\<close>: the human seat's reply to the Wheel of Fortune prompt,
    \<open>None\<close> for \<open>none\<close> or a reply that does not parse, otherwise the indices entered;
  \<^item> \<open>discard_prompt s i\<close>: the human seat's reply to the discard question after a draw,
    \<open>None\<close> for no, otherwise the index the prompt loop accepted;
  \<^item> \<open>interactive_effect\<close>: the handlers of The Magician, The Emperor, The Hierophant, The
    Chariot and The Devil, whose outcome is decided by prompts and random choices.
\<close>

record env =
  shuffle :: "card list \<Rightarrow> card list"
  human_nullifies :: "game_state \<Rightarrow> nat \<Rightarrow> nat \<Rightarrow> bool"
  random_below :: "game_state \<Rightarrow> nat \<Rightarrow> nat \<Rightarrow> bool"
  devil_target :: "game_state \<Rightarrow> nat \<Rightarrow> nat option"
  wheel_keep_input :: "game_state \<Rightarrow> nat \<Rightarrow> card list \<Rightarrow> int list option"
  discard_prompt :: "game_state \<Rightarrow> nat \<Rightarrow> int option"
  interactive_effect :: "effect_id \<Rightarrow> game_state \<Rightarrow> nat \<Rightarrow> error + game_state"

text \<open>
  \<open>player.hand.remove(card); game.removed_pile.append(card)\<close>, the move the effects share.
\<close>

definition remove_to_removed_pile :: "nat \<Rightarrow> card \<Rightarrow> game_state \<Rightarrow> game_state" where
  "remove_to_removed_pile i c s =
     (map_player i (\<lambda>p. p\<lparr>hand := remove1 c (hand p)\<rparr>) s)
       \<lparr>removed_pile := removed_pile s @ [c]\<rparr>"

definition hermit_effect :: "nat \<Rightarrow> game_state \<Rightarrow> game_state" where
  "hermit_effect i s = map_player i (\<lambda>p. p\<lparr>is_hermit := True\<rparr>) s"

text \<open>
  The target lists of the compulsion effects: \<open>targets\<close> of \<open>emperor_effect\<close>, and the seats
  the loops of \<open>hierophant_effect\<close> and \<open>chariot_effect\<close> do not skip.
\<close>

definition emperor_targets :: "nat \<Rightarrow> game_state \<Rightarrow> nat list" where
  "emperor_targets i s =
     filter (\<lambda>j. j \<noteq> i \<and> \<not> has_folded (players s ! j) \<and> \<not> is_hermit (players s ! j))
       [0..<length (players s)]"

definition compelled_seats :: "nat \<Rightarrow> game_state \<Rightarrow> nat list" where
  "compelled_seats i s =
     filter (\<lambda>j. \<not> (j = i \<or> has_folded (players s ! j) \<or> is_hermit (players s ! j)))
       [0..<length (players s)]"

text \<open>
  \<open>choose_wheel_of_fortune_cards\<close> (sabacc\_ai.py): every combination of the drawn cards, by
  size and then in the order of \<open>itertools.combinations\<close>; a combination replaces the best so
  far only when its distance is strictly smaller.
\<close>

fun combinations :: "'a list \<Rightarrow> nat \<Rightarrow> 'a list list" where
  "combinations xs 0 = [[]]"
| "combinations [] (Suc k) = []"
| "combinations (x # xs) (Suc k) = map ((#) x) (combinations xs k) @ combinations xs (Suc k)"

definition hand_distance :: "hand \<Rightarrow> error + distance" where
  "hand_distance h =
     (case calculate_hand_value h of
        Inl e \<Rightarrow> Inl e
      | Inr (v, busted) \<Rightarrow> Inr (if \<not> busted then Finite \<bar>\<bar>v\<bar> - 23\<bar> else Infinity))"

fun best_keep :: "hand \<Rightarrow> card list list \<Rightarrow> card list \<times> distance \<Rightarrow> error + (card list \<times> distance)" where
  "best_keep current_hand [] best = Inr best"
| "best_keep current_hand (cards_to_keep # rest) (best_kept_cards, best_distance) =
     (case hand_distance (current_hand @ cards_to_keep) of
        Inl e \<Rightarrow> Inl e
      | Inr test_distance \<Rightarrow>
          best_keep current_hand rest
            (if dist_less test_distance best_distance then (cards_to_keep, test_distance)
             else (best_kept_cards, best_distance)))"

definition choose_wheel_of_fortune_cards :: "hand \<Rightarrow> card list \<Rightarrow> error + card list" where
  "choose_wheel_of_fortune_cards current_hand drawn_cards =
     (case hand_distance current_hand of
        Inl e \<Rightarrow> Inl e
      | Inr current_distance \<Rightarrow>
          (case best_keep current_hand
                  (concat (map (combinations drawn_cards) [0..<length drawn_cards + 1]))
                  ([], current_distance) of
             Inl e \<Rightarrow> Inl e
           | Inr (best_kept_cards, _) \<Rightarrow> Inr best_kept_cards))"

text \<open>
  \<open>wheel_of_fortune_effect\<close>. Both branches take the Wheel of Fortune card out of the hand
  with \<open>player.hand.remove(('10', 'T'))\<close>, which raises \<open>ValueError\<close> when it is not there.
\<close>

definition wheel_of_fortune_effect :: "env \<Rightarrow> nat \<Rightarrow> game_state \<Rightarrow> error + game_state" where
  "wheel_of_fortune_effect ev i s =
     (case ensure_cards_available (shuffle ev) 4 s of
        Inl e \<Rightarrow> Inl e
      | Inr s1 \<Rightarrow>
          (case draw_cards 4 s1 of
             Inl e \<Rightarrow> Inl e
           | Inr (drawn_cards, s2) \<Rightarrow>
               (let p = players s2 ! i in
                if (''10'', ''T'') \<notin> set (hand p) then Inl ValueError
                else
                  (let s3 = map_player i (\<lambda>p. p\<lparr>hand := remove1 (''10'', ''T'') (hand p)\<rparr>) s2;
                       current_hand = hand (players s3 ! i)
                   in case (if is_human p then
                              Inr (case wheel_keep_input ev s3 i drawn_cards of
                                     None \<Rightarrow> []
                                   | Some keep_indices \<Rightarrow>
                                       map (\<lambda>k. drawn_cards ! nat k)
                                         (filter (\<lambda>k. 0 \<le> k \<and> k < 4) keep_indices))
                            else choose_wheel_of_fortune_cards current_hand drawn_cards) of
                        Inl e \<Rightarrow> Inl e
                      | Inr kept_cards \<Rightarrow>
                          (let discarded_cards = filter (\<lambda>c. c \<notin> set kept_cards) drawn_cards;
                               s4 = map_player i (\<lambda>p. p\<lparr>hand := hand p @ kept_cards\<rparr>) s3
                           in Inr (s4\<lparr>discard_pile := discard_pile s4 @ discarded_cards\<rparr>))))))"

definition moon_effect :: "env \<Rightarrow> nat \<Rightarrow> game_state \<Rightarrow> error + game_state" where
  "moon_effect ev i s =
     (let moon_card = (''18'', ''T'');
          s1 = (if moon_card \<in> set (hand (players s ! i)) then remove_to_removed_pile i moon_card s
                else s)
      in case ensure_cards_available (shuffle ev) 1 s1 of
           Inl e \<Rightarrow> Inl e
         | Inr s2 \<Rightarrow>
             (case draw s2 of
                (None, _) \<Rightarrow> Inl NoneStored
              | (Some new_card, s3) \<Rightarrow>
                  Inr (s3\<lparr>community_cards := community_cards s3 @ [new_card]\<rparr>)))"

text \<open>
  \<open>sun_effect\<close> sets the flag and prints the value of every hand still in play; the
  evaluation can raise, the printing changes nothing.
\<close>

fun show_hands :: "player list \<Rightarrow> error + unit" where
  "show_hands [] = Inr ()"
| "show_hands (p # ps) =
     (if \<not> has_folded p then
        (case calculate_hand_value (hand p) of Inl e \<Rightarrow> Inl e | Inr _ \<Rightarrow> show_hands ps)
      else show_hands ps)"

definition sun_effect :: "nat \<Rightarrow> game_state \<Rightarrow> error + game_state" where
  "sun_effect i s =
     (let s1 = s\<lparr>hands_face_up := True\<rparr> in
      case show_hands (players s1) of Inl e \<Rightarrow> Inl e | Inr _ \<Rightarrow> Inr s1)"

definition judgment_effect :: "nat \<Rightarrow> game_state \<Rightarrow> game_state" where
  "judgment_effect i s = s\<lparr>judgment_played := True\<rparr>"

definition universe_effect :: "nat \<Rightarrow> game_state \<Rightarrow> game_state" where
  "universe_effect i s =
     (let universe_card = (''21'', ''T'') in
      if universe_card \<in> set (hand (players s ! i)) then remove_to_removed_pile i universe_card s
      else s)"

text \<open>Calling the handler \<open>self.effect(game, player)\<close>.\<close>

definition run_effect :: "env \<Rightarrow> effect_id \<Rightarrow> nat \<Rightarrow> game_state \<Rightarrow> error + game_state" where
  "run_effect ev eff i s =
     (case eff of
        Hermit_effect \<Rightarrow> Inr (hermit_effect i s)
      | Wheel_of_fortune_effect \<Rightarrow> wheel_of_fortune_effect ev i s
      | Hanged_man_effect \<Rightarrow> Inr s
      | Moon_effect \<Rightarrow> moon_effect ev i s
      | Sun_effect \<Rightarrow> sun_effect i s
      | Judgment_effect \<Rightarrow> Inr (judgment_effect i s)
      | Universe_effect \<Rightarrow> Inr (universe_effect i s)
      | _ \<Rightarrow> interactive_effect ev eff s i)"

definition apply_effect :: "env \<Rightarrow> trionfi_effect \<Rightarrow> nat \<Rightarrow> game_state \<Rightarrow> error + game_state" where
  "apply_effect ev t i s =
     (case effect t of
        None \<Rightarrow> Inr s
      | Some eff \<Rightarrow>
          (case run_effect ev eff i s of
             Inl e \<Rightarrow> Inl e
           | Inr s1 \<Rightarrow>
               if \<not> stays_in_hand t then
                 (let c = (py_str (number t), ''T'') in
                  if c \<in> set (hand (players s1 ! i)) then Inr (remove_to_removed_pile i c s1)
                  else Inr s1)
               else Inr s1))"

section \<open>The turn (sabacc\_game.py)\<close>

text \<open>
  \<open>should_play_hanged_man\<close> (sabacc\_ai.py), the decision of an AI seat \<open>holder\<close> that holds
  The Hanged Man when seat \<open>acting\<close> plays the trump \<open>t\<close>. The holder's hand is evaluated
  first, which can raise. \<open>our_distance <= 5\<close> is false for \<open>float('inf')\<close>.
\<close>

fun dist_at_most :: "distance \<Rightarrow> int \<Rightarrow> bool" where
  "dist_at_most (Finite a) b = (a \<le> b)"
| "dist_at_most Infinity b = False"

definition should_play_hanged_man ::
  "env \<Rightarrow> game_state \<Rightarrow> nat \<Rightarrow> nat \<Rightarrow> trionfi_effect \<Rightarrow> error + bool" where
  "should_play_hanged_man ev s holder acting t =
     (case hand_distance (hand (players s ! holder)) of
        Inl e \<Rightarrow> Inl e
      | Inr our_distance \<Rightarrow>
          if number t \<in> set [4, 5, 7] then Inr (random_below ev s holder 80)
          else if number t \<in> set [1, 10] then
            (if credits (players s ! acting) < min_bet s * 10 then
               Inr (random_below ev s holder 70)
             else if dist_at_most our_distance 5 \<and> credits (players s ! holder) > pot s then
               Inr (random_below ev s holder 50)
             else Inr False)
          else if number t \<in> set [9] then Inr (random_below ev s holder 10)
          else Inr False)"

text \<open>
  The answer of a seat that is offered the interrupt: the human seat is asked, an AI seat
  decides with \<open>should_play_hanged_man\<close>.
\<close>

definition interrupt_decision ::
  "env \<Rightarrow> nat \<Rightarrow> trionfi_effect \<Rightarrow> game_state \<Rightarrow> nat \<Rightarrow> error + bool" where
  "interrupt_decision ev acting t s j =
     (if is_human (players s ! j) then Inr (human_nullifies ev s j (number t))
      else should_play_hanged_man ev s j acting t)"

text \<open>
  \<open>check_for_hanged_man_interrupt\<close>: the loop \<open>for player in game.players\<close>, over the seats
  still to be visited. Both branches act alike once the seat has said yes.
\<close>

fun hanged_man_scan ::
  "env \<Rightarrow> nat \<Rightarrow> trionfi_effect \<Rightarrow> nat list \<Rightarrow> game_state \<Rightarrow> error + (bool \<times> game_state)" where
  "hanged_man_scan ev acting t [] s = Inr (False, s)"
| "hanged_man_scan ev acting t (j # rest) s =
     (let hanged_man_card = (''12'', ''T'');
          p = players s ! j
      in if j = acting \<or> has_folded p then hanged_man_scan ev acting t rest s
         else if hanged_man_card \<notin> set (hand p) then hanged_man_scan ev acting t rest s
         else
           (case interrupt_decision ev acting t s j of
              Inl e \<Rightarrow> Inl e
            | Inr yes \<Rightarrow>
                if yes then
                  (let s1 = remove_to_removed_pile j hanged_man_card s;
                       trionfi_card = (py_str (number t), ''T'')
                   in if trionfi_card \<in> set (hand (players s1 ! acting))
                      then Inr (True, remove_to_removed_pile acting trionfi_card s1)
                      else Inr (True, s1))
                else hanged_man_scan ev acting t rest s))"

definition check_for_hanged_man_interrupt ::
  "env \<Rightarrow> nat \<Rightarrow> trionfi_effect \<Rightarrow> game_state \<Rightarrow> error + (bool \<times> game_state)" where
  "check_for_hanged_man_interrupt ev acting t s =
     hanged_man_scan ev acting t [0..<length (players s)] s"

text \<open>
  \<open>handle_devil_card\<close>: when the holder gives The Devil away and a seat is eligible, the card
  moves to the chosen seat's hand.
\<close>

definition handle_devil_card :: "env \<Rightarrow> nat \<Rightarrow> game_state \<Rightarrow> game_state" where
  "handle_devil_card ev i s =
     (let devil_card = (''15'', ''T'') in
      case devil_target ev s i of
        None \<Rightarrow> s
      | Some k \<Rightarrow>
          (let eligible_targets =
                 filter (\<lambda>j. j \<noteq> i \<and> \<not> has_folded (players s ! j)) [0..<length (players s)]
           in if k < length eligible_targets then
                map_player (eligible_targets ! k) (\<lambda>p. p\<lparr>hand := hand p @ [devil_card]\<rparr>)
                  (map_player i (\<lambda>p. p\<lparr>hand := remove1 devil_card (hand p)\<rparr>) s)
              else s))"

text \<open>
  The \<open>action\<close> dictionary: an absent key is \<open>None\<close> (\<open>False\<close> for the flag
  \<open>ask_discard_after_draw\<close>), and \<open>action.get\<close> supplies the defaults where it is read.
\<close>

record action =
  bet_action :: "string option"
  raise_amount :: "int option"
  play_trionfi :: "card option"
  draw_action :: "string option"
  draw_index :: "int option"
  hand_card_index :: "int option"
  community_card_index :: "int option"
  ask_discard_after_draw :: bool
  discard_index :: "int option"

text \<open>Step 1.5: the trump played with a raise, through the interrupt check.\<close>

definition play_trionfi_step :: "env \<Rightarrow> nat \<Rightarrow> action \<Rightarrow> game_state \<Rightarrow> error + game_state" where
  "play_trionfi_step ev i a s =
     (case play_trionfi a of
        None \<Rightarrow> Inr s
      | Some c \<Rightarrow>
          (case get_trionfi_effect c of
             None \<Rightarrow> Inr s
           | Some t \<Rightarrow>
               if effect t \<noteq> None then
                 (case check_for_hanged_man_interrupt ev i t s of
                    Inl e \<Rightarrow> Inl e
                  | Inr (True, s1) \<Rightarrow> Inr s1
                  | Inr (False, s1) \<Rightarrow> apply_effect ev t i s1)
               else Inr s))"

text \<open>
  Step 1: the betting action. The flag is \<open>False\<close> for the fold, which ends the turn.
\<close>

definition betting_step :: "env \<Rightarrow> nat \<Rightarrow> action \<Rightarrow> game_state \<Rightarrow> error + (bool \<times> game_state)" where
  "betting_step ev i a s =
     (let bet = (case bet_action a of None \<Rightarrow> ''fold'' | Some b \<Rightarrow> b) in
      if bet = ''fold'' then Inr (False, player_fold i s)
      else if bet = ''call'' then Inr (True, snd (player_call i s))
      else if bet = ''raise'' then
        (let amount = (case raise_amount a of None \<Rightarrow> min_bet s | Some r \<Rightarrow> r) in
         case play_trionfi_step ev i a (snd (player_raise i amount s)) of
           Inl e \<Rightarrow> Inl e
         | Inr s1 \<Rightarrow> Inr (True, s1))
      else Inr (True, s))"

text \<open>Step 2: the draw, for a seat that has not drawn yet. Returns \<open>drew_card\<close>.\<close>

definition draw_step :: "env \<Rightarrow> nat \<Rightarrow> action \<Rightarrow> game_state \<Rightarrow> error + (bool \<times> game_state)" where
  "draw_step ev i a s =
     (if \<not> has_drawn (players s ! i) then
        (if draw_action a = Some ''draw_pile'' then
           (case draw_from_draw_pile (shuffle ev) i s of
              Inl e \<Rightarrow> Inl e | Inr (_, s1) \<Rightarrow> Inr (True, s1))
         else if draw_action a = Some ''discard_pile'' then
           (let idx = (case draw_index a of None \<Rightarrow> int (length (discard_pile s)) - 1 | Some k \<Rightarrow> k)
            in case draw_from_discard_pile i idx s of
                 Inl e \<Rightarrow> Inl e | Inr (_, s1) \<Rightarrow> Inr (True, s1))
         else if draw_action a = Some ''community'' then
           (let hand_index = (case hand_card_index a of None \<Rightarrow> 0 | Some k \<Rightarrow> k);
                comm_index = (case community_card_index a of None \<Rightarrow> 0 | Some k \<Rightarrow> k)
            in case swap_with_community i hand_index comm_index s of
                 Inl e \<Rightarrow> Inl e | Inr (_, s1) \<Rightarrow> Inr (True, s1))
         else Inr (False, s))
      else Inr (False, s))"

text \<open>
  Step 2.5: a human seat that drew may be asked whether to discard; the answer replaces
  \<open>action['discard_index']\<close>. The hand is evaluated for the prompt, which can raise.
\<close>

definition ask_discard_step ::
  "env \<Rightarrow> nat \<Rightarrow> action \<Rightarrow> bool \<Rightarrow> game_state \<Rightarrow> error + action" where
  "ask_discard_step ev i a drew_card s =
     (if is_human (players s ! i) \<and> drew_card \<and> ask_discard_after_draw a then
        (case calculate_hand_value (hand (players s ! i)) of
           Inl e \<Rightarrow> Inl e
         | Inr _ \<Rightarrow>
             (case discard_prompt ev s i of
                None \<Rightarrow> Inr a
              | Some idx \<Rightarrow> Inr (a\<lparr>discard_index := Some idx\<rparr>)))
      else Inr a)"

text \<open>Step 3: the optional discard.\<close>

definition discard_step :: "nat \<Rightarrow> int option \<Rightarrow> game_state \<Rightarrow> error + game_state" where
  "discard_step i di s =
     (case di of
        None \<Rightarrow> Inr s
      | Some d \<Rightarrow>
          if 0 \<le> d \<and> d < int (length (hand (players s ! i))) then
            (case discard_card i d s of Inl e \<Rightarrow> Inl e | Inr (_, s1) \<Rightarrow> Inr s1)
          else Inr s)"

text \<open>
  Steps 0 to 2.5 of \<open>execute_player_turn\<close> for a seat that has not folded: either the seat
  folds now, or step 3 is reached with the action as it is read there.
\<close>

datatype turn_progress = Folded game_state | Reaches_discard action game_state

definition turn_before_discard ::
  "env \<Rightarrow> nat \<Rightarrow> action \<Rightarrow> game_state \<Rightarrow> error + turn_progress" where
  "turn_before_discard ev i a s =
     (let s0 = (if (''15'', ''T'') \<in> set (hand (players s ! i)) then handle_devil_card ev i s
                else s)
      in case betting_step ev i a s0 of
           Inl e \<Rightarrow> Inl e
         | Inr (False, s1) \<Rightarrow> Inr (Folded s1)
         | Inr (True, s1) \<Rightarrow>
             (case draw_step ev i a s1 of
                Inl e \<Rightarrow> Inl e
              | Inr (drew_card, s2) \<Rightarrow>
                  (case ask_discard_step ev i a drew_card s2 of
                     Inl e \<Rightarrow> Inl e
                   | Inr a' \<Rightarrow> Inr (Reaches_discard a' s2))))"

definition execute_player_turn ::
  "env \<Rightarrow> nat \<Rightarrow> action \<Rightarrow> game_state \<Rightarrow> error + (bool \<times> game_state)" where
  "execute_player_turn ev i a s =
     (if has_folded (players s ! i) then Inr (False, s)
      else
        (case turn_before_discard ev i a s of
           Inl e \<Rightarrow> Inl e
         | Inr (Folded s1) \<Rightarrow> Inr (False, s1)
         | Inr (Reaches_discard a' s2) \<Rightarrow>
             (case discard_step i (discard_index a') s2 of
                Inl e \<Rightarrow> Inl e
              | Inr s3 \<Rightarrow> Inr (True, s3))))"

text \<open>
  \<open>run_betting_round\<close>. \<open>get_action\<close> is the collaborator that supplies a seat's action
  (\<open>get_player_action_interactive\<close> or \<open>get_ai_action_func\<close>). The \<open>while\<close> loop runs while
  the round is incomplete and \<open>safety_counter < max_iterations\<close>; the first argument of
  \<open>betting_loop\<close> is \<open>max_iterations - safety_counter\<close>. Besides the state, the model returns
  the seats that were asked for an action, in order.
\<close>

fun betting_loop ::
  "env \<Rightarrow> (game_state \<Rightarrow> nat \<Rightarrow> action) \<Rightarrow> nat \<Rightarrow> nat \<Rightarrow> nat \<Rightarrow> game_state \<Rightarrow> nat list
   \<Rightarrow> error + (game_state \<times> nat list)" where
  "betting_loop ev get_action num_players 0 current_index s asked = Inr (s, asked)"
| "betting_loop ev get_action num_players (Suc k) current_index s asked =
     (if is_betting_round_complete s then Inr (s, asked)
      else
        (let p = players s ! current_index;
             next_index = (current_index + 1) mod num_players
         in if \<not> has_folded p \<and> credits p > 0 then
              (case execute_player_turn ev current_index (get_action s current_index) s of
                 Inl e \<Rightarrow> Inl e
               | Inr (_, s1) \<Rightarrow>
                   betting_loop ev get_action num_players k next_index s1
                     (asked @ [current_index]))
            else betting_loop ev get_action num_players k next_index s asked))"

definition run_betting_round ::
  "env \<Rightarrow> (game_state \<Rightarrow> nat \<Rightarrow> action) \<Rightarrow> game_state \<Rightarrow> error + (game_state \<times> nat list)" where
  "run_betting_round ev get_action s =
     (let num_players = length (players s) in
      if num_players = 0 then Inl ZeroDivisionError
      else betting_loop ev get_action num_players (num_players * 10)
             ((dealer_index s + 1) mod num_players) s [])"

section \<open>Example tables\<close>

text \<open>
  A table of three seats in the middle of a betting round: the table bet is 4, seat 0 has
  matched it, seat 1 has 5 credits and 2 in front of it, seat 2 has folded.
\<close>

definition raise_example :: game_state where
  "raise_example =
     \<lparr>players =
        [(new_player ''Ada'' 100 True)\<lparr>current_bet := 4, has_acted := True\<rparr>,
         (new_player ''Bo'' 5 False)\<lparr>current_bet := 2\<rparr>,
         (new_player ''Cy'' 50 False)\<lparr>has_folded := True, has_acted := True\<rparr>],
      draw_pile = [], discard_pile = [], community_cards = [], removed_pile = [],
      pot = 6, table_bet = 4, min_bet = 2, dealer_index = 0, hand_number = 1,
      hands_face_up = False, judgment_played = False, tiebreaker_info = None\<rparr>"

text \<open>
  Collaborators that never intervene: no shuffle, the human seat never nullifies, every
  random draw is above its threshold, The Devil is kept, nothing is kept from the Wheel of
  Fortune prompt, no discard at the prompt, and the interactive effects leave the table as
  it is.
\<close>

definition quiet_env :: env where
  "quiet_env =
     \<lparr>shuffle = (\<lambda>cards. cards),
      human_nullifies = (\<lambda>s holder n. False),
      random_below = (\<lambda>s i p. False),
      devil_target = (\<lambda>s i. None),
      wheel_keep_input = (\<lambda>s i drawn. None),
      discard_prompt = (\<lambda>s i. None),
      interactive_effect = (\<lambda>eff s i. Inr s)\<rparr>"

text \<open>The action dictionaries \<open>{'bet_action': 'call'}\<close> and \<open>{}\<close>.\<close>

definition empty_action :: action where
  "empty_action =
     \<lparr>bet_action = None, raise_amount = None, play_trionfi = None, draw_action = None,
      draw_index = None, hand_card_index = None, community_card_index = None,
      ask_discard_after_draw = False, discard_index = None\<rparr>"

definition call_action :: action where
  "call_action = empty_action\<lparr>bet_action := Some ''call''\<rparr>"

text \<open>Two seats with two cards each, nothing bet yet.\<close>

definition discard_example :: game_state where
  "discard_example =
     \<lparr>players =
        [(new_player ''Ada'' 100 True)\<lparr>hand := [(''9'', ''D''), (''Q'', ''S'')]\<rparr>,
         (new_player ''Bo'' 100 False)\<lparr>hand := [(''5'', ''W''), (''K'', ''C'')]\<rparr>],
      draw_pile = [(''2'', ''W''), (''3'', ''W'')], discard_pile = [(''4'', ''W'')],
      community_cards = [], removed_pile = [],
      pot = 0, table_bet = 0, min_bet = 2, dealer_index = 0, hand_number = 1,
      hands_face_up = False, judgment_played = False, tiebreaker_info = None\<rparr>"

text \<open>A table whose draw and discard piles hold one card each.\<close>

definition low_piles_example :: game_state where
  "low_piles_example =
     discard_example\<lparr>draw_pile := [(''2'', ''W'')], discard_pile := [(''4'', ''W'')]\<rparr>"

text \<open>
  Three seats before the blinds, the dealer at seat 0: the big blind falls on seat 2, which
  has a single credit and so posts it all-in.
\<close>

definition short_stack_example :: game_state where
  "short_stack_example =
     \<lparr>players =
        [new_player ''Ada'' 500 True, new_player ''Bo'' 500 False, new_player ''Cy'' 1 False],
      draw_pile = [], discard_pile = [], community_cards = [], removed_pile = [],
      pot = 0, table_bet = 0, min_bet = 2, dealer_index = 0, hand_number = 1,
      hands_face_up = False, judgment_played = False, tiebreaker_info = None\<rparr>"

text \<open>
  The start of a hand for two seats, by the code's own steps (\<open>start_new_hand\<close>,
  \<open>collect_blinds\<close>, \<open>deal_initial_cards\<close>), where the shuffle happens to rotate the fresh
  deck by seven cards: seat 0 is dealt trumps 7 and 8, seat 1 The Hermit (9) and the Wheel
  of Fortune (10).
\<close>

definition example_env :: env where
  "example_env = quiet_env\<lparr>shuffle := rotate 7\<rparr>"

definition dealt_example :: "error + game_state" where
  "dealt_example =
     (case collect_blinds (start_new_hand (shuffle example_env) (new_game [''Ada'', ''Bo''] 500 2)) of
        Inl e \<Rightarrow> Inl e
      | Inr s \<Rightarrow> deal_initial_cards (shuffle example_env) s)"

text \<open>
  \<open>{'bet_action': 'raise', 'play_trionfi': ('10', 'T')}\<close>, the same with The Hermit, and a
  collaborator that plays The Hermit from seat 1 once and calls otherwise.
\<close>

definition wheel_action :: action where
  "wheel_action = empty_action\<lparr>bet_action := Some ''raise'', play_trionfi := Some (''10'', ''T'')\<rparr>"

definition hermit_action :: action where
  "hermit_action = empty_action\<lparr>bet_action := Some ''raise'', play_trionfi := Some (''9'', ''T'')\<rparr>"

definition hermit_then_call :: "game_state \<Rightarrow> nat \<Rightarrow> action" where
  "hermit_then_call s i =
     (if i = 1 \<and> \<not> is_hermit (players s ! 1) then hermit_action else call_action)"

text \<open>Every card the table accounts for, pile by pile.\<close>

definition all_cards :: "game_state \<Rightarrow> card list" where
  "all_cards s =
     draw_pile s @ discard_pile s @ community_cards s @ concat (map hand (players s))
     @ removed_pile s"






text \<open>
  The points of one card before aces and the Lovers are resolved, in the words of the
  specification: a standard card counts its face value, with the court ranks at 11 to 14 and
  an ace at 1; a trump of negative value counts minus its rank; every other trump, the
  Lovers included, counts nothing here.
\<close>

definition points_as_specified :: "card \<Rightarrow> int" where
  "points_as_specified c =
     (let face = (case py_int (fst c) of Inl e \<Rightarrow> 0 | Inr k \<Rightarrow> k) in
      if snd c = ''T'' then (if fst c \<in> set negative_trionfi then - face else 0)
      else if fst c = ''1'' then 1
      else if fst c = ''K'' then 14
      else if fst c = ''Q'' then 13
      else if fst c = ''N'' then 12
      else if fst c = ''P'' then 11
      else face)"

text \<open>
  Showdowns. In \<open>busted_sole_example\<close> seat 0 has folded and seat 1 holds two kings (28).
  In \<open>showdown_example\<close> seats 0 and 1 both hold 23 with a king as highest card (of Cups and
  of Wands), seat 2 holds two kings (28) and seat 3 two tens (20).
\<close>

definition busted_sole_example :: game_state where
  "busted_sole_example =
     \<lparr>players =
        [(new_player ''Ada'' 100 True)\<lparr>hand := [(''9'', ''D''), (''Q'', ''S'')], has_folded := True\<rparr>,
         (new_player ''Bo'' 100 False)\<lparr>hand := [(''K'', ''W''), (''K'', ''C'')]\<rparr>],
      draw_pile = [], discard_pile = [], community_cards = [], removed_pile = [],
      pot = 10, table_bet = 0, min_bet = 2, dealer_index = 0, hand_number = 1,
      hands_face_up = False, judgment_played = False, tiebreaker_info = None\<rparr>"

definition showdown_example :: game_state where
  "showdown_example =
     \<lparr>players =
        [(new_player ''Ada'' 100 True)\<lparr>hand := [(''K'', ''C''), (''9'', ''D'')]\<rparr>,
         (new_player ''Bo'' 100 False)\<lparr>hand := [(''K'', ''W''), (''9'', ''C'')]\<rparr>,
         (new_player ''Cy'' 100 False)\<lparr>hand := [(''K'', ''S''), (''K'', ''D'')]\<rparr>,
         (new_player ''Di'' 100 False)\<lparr>hand := [(''10'', ''W''), (''10'', ''C'')]\<rparr>],
      draw_pile = [], discard_pile = [], community_cards = [], removed_pile = [],
      pot = 10, table_bet = 0, min_bet = 2, dealer_index = 0, hand_number = 1,
      hands_face_up = False, judgment_played = False, tiebreaker_info = None\<rparr>"

text \<open>The registry entry of the Wheel of Fortune.\<close>

definition Wheel_of_Fortune :: trionfi_effect where
  "Wheel_of_Fortune =
     TrionfiEffect 10 ''Wheel of Fortune'' (Some Wheel_of_fortune_effect) False False"

section \<open>Properties of the scoring function\<close>

lemma count_card_flags:
  "count_card c (v, n, l) = Inr (v', n', l') \<Longrightarrow>
   n' = n + (if snd c \<noteq> ''T'' \<and> fst c = ''1'' then 1 else 0) \<and> l' = (l \<or> c = (''6'', ''T''))"
  by (auto simp: count_card_def split: sum.splits prod.splits if_splits)

lemma count_cards_flags:
  "count_cards h (v, n, l) = Inr (v', n', l') \<Longrightarrow>
   n' = n + length (filter (\<lambda>c. snd c \<noteq> ''T'' \<and> fst c = ''1'') h) \<and>
   l' = (l \<or> (''6'', ''T'') \<in> set h)"
proof (induction h arbitrary: v n l)
  case Nil
  then show ?case by simp
next
  case (Cons c cs)
  from Cons.prems obtain v1 n1 l1 where
    step: "count_card c (v, n, l) = Inr (v1, n1, l1)" and
    rest: "count_cards cs (v1, n1, l1) = Inr (v', n', l')"
    by (auto split: sum.splits)
  from count_card_flags[OF step] Cons.IH[OF rest] show ?case by auto
qed

lemma optimize_aces_Suc: "optimize_aces (Suc k) v = ace_step (optimize_aces k v)"
  by (induction k arbitrary: v) simp_all

lemma ace_step_bound: "ace_step v \<noteq> v \<Longrightarrow> \<bar>ace_step v\<bar> \<le> 23"
  by (simp add: ace_step_def Let_def split: if_splits)

lemma example_hand_value:
  "calculate_hand_value [(''10'', ''W''), (''10'', ''C''), (''1'', ''S'')] = Inr (21, False)"
  by code_simp

lemma resolve_lovers_cases:
  "resolve_lovers a =
     (if \<bar>a + 6\<bar> \<le> 23 \<and> (23 < \<bar>a - 6\<bar> \<or> distance_from_23 (a + 6) < distance_from_23 (a - 6))
      then a + 6 else a - 6)"
  unfolding resolve_lovers_def distance_from_23_def Let_def
  by (cases "\<bar>a + 6\<bar> \<le> 23"; cases "\<bar>a - 6\<bar> \<le> 23"; simp)

lemma six_not_negative: "''6'' \<notin> set negative_trionfi"
  by (simp add: negative_trionfi_def)

lemma count_card_points:
  assumes "count_card (rank, suit) (v, n, l) = Inr (v', n', l')"
  shows "v' = v + points_as_specified (rank, suit)"
proof (cases "suit = ''T''")
  case True
  with assms six_not_negative show ?thesis
    by (simp add: count_card_def points_as_specified_def Let_def split: sum.splits if_splits)
next
  case False
  with assms show ?thesis
    by (simp add: count_card_def points_as_specified_def Let_def split: sum.splits if_splits)
qed

lemma count_cards_points:
  "count_cards h (v, n, l) = Inr (v', n', l') \<Longrightarrow>
   v' = v + sum_list (map points_as_specified h)"
proof (induction h arbitrary: v n l)
  case Nil
  then show ?case by simp
next
  case (Cons c cs)
  obtain rank suit where c: "c = (rank, suit)" by (cases c)
  from Cons.prems obtain v1 n1 l1 where
    step: "count_card (rank, suit) (v, n, l) = Inr (v1, n1, l1)" and
    rest: "count_cards cs (v1, n1, l1) = Inr (v', n', l')"
    unfolding c by (auto split: sum.splits)
  from count_card_points[OF step] Cons.IH[OF rest] show ?case by (simp add: c)
qed

text \<open>
  C2. Let the first loop of \<open>calculate_hand_value\<close> leave the running total \<open>base\<close>, the
  ace count \<open>n\<close> and the Lovers flag. Then \<open>base\<close> is the sum of the cards' points with
  every ace at 1, \<open>n\<close> is the number of aces in the hand (non-trump cards of rank 1), and
  the flag tells whether the hand holds the Lovers. The aces are resolved one after the
  other, starting from \<open>base\<close>: each adds 10 to the running total exactly when that strictly
  reduces the distance from 23 and keeps the absolute value at most 23, so whenever an ace
  changes the total the new total is not beyond 23. The value of a hand without the Lovers
  is the total after the \<open>n\<close> ace steps, busted exactly when it is beyond 23 (with the
  Lovers, the same total goes through the Lovers step); and the hand 10 of Wands, 10 of
  Cups, ace of Swords evaluates to 21, not busted.
\<close>

theorem calculate_hand_value_aces:
  assumes "count_cards h (0, 0, False) = Inr (base, n, lov)"
  shows "base = sum_list (map points_as_specified h)
       \<and> n = length (filter (\<lambda>c. snd c \<noteq> ''T'' \<and> fst c = ''1'') h)
       \<and> lov = ((''6'', ''T'') \<in> set h)
       \<and> optimize_aces 0 base = base
       \<and> (\<forall>k. optimize_aces (Suc k) base =
               (let w = optimize_aces k base
                in if distance_from_23 (w + 10) < distance_from_23 w \<and> \<bar>w + 10\<bar> \<le> 23
                   then w + 10 else w))
       \<and> (\<forall>k. optimize_aces (Suc k) base \<noteq> optimize_aces k base
               \<longrightarrow> \<bar>optimize_aces (Suc k) base\<bar> \<le> 23)
       \<and> (\<not> lov \<longrightarrow> calculate_hand_value h
                        = Inr (optimize_aces n base, \<bar>optimize_aces n base\<bar> > 23))
       \<and> calculate_hand_value h =
           Inr (let a = optimize_aces n base; v = (if lov then resolve_lovers a else a)
                in (v, \<bar>v\<bar> > 23))
       \<and> calculate_hand_value [(''10'', ''W''), (''10'', ''C''), (''1'', ''S'')] = Inr (21, False)"
proof -
  have pts: "base = sum_list (map points_as_specified h)"
    using count_cards_points[OF assms] by simp
  have aces: "n = length (filter (\<lambda>c. snd c \<noteq> ''T'' \<and> fst c = ''1'') h)"
    and lovers: "lov = ((''6'', ''T'') \<in> set h)"
    using count_cards_flags[OF assms] by simp_all
  have start: "optimize_aces 0 base = base" by simp
  have step: "\<forall>k. optimize_aces (Suc k) base =
               (let w = optimize_aces k base
                in if distance_from_23 (w + 10) < distance_from_23 w \<and> \<bar>w + 10\<bar> \<le> 23
                   then w + 10 else w)"
    unfolding optimize_aces_Suc by (simp add: ace_step_def distance_from_23_def Let_def)
  have bound: "\<forall>k. optimize_aces (Suc k) base \<noteq> optimize_aces k base
               \<longrightarrow> \<bar>optimize_aces (Suc k) base\<bar> \<le> 23"
    unfolding optimize_aces_Suc using ace_step_bound by blast
  have result: "calculate_hand_value h =
           Inr (let a = optimize_aces n base; v = (if lov then resolve_lovers a else a)
                in (v, \<bar>v\<bar> > 23))"
    using assms by (simp add: calculate_hand_value_def Let_def)
  then have plain: "\<not> lov \<longrightarrow> calculate_hand_value h
                        = Inr (optimize_aces n base, \<bar>optimize_aces n base\<bar> > 23)"
    by (simp add: Let_def)
  show ?thesis
    by (intro conjI)
       (fact pts, fact aces, fact lovers, fact start, fact step, fact bound, fact plain,
        fact result, fact example_hand_value)
qed


theorem calculate_hand_value_aces_witness:
  "count_cards [(''1'', ''W''), (''9'', ''C''), (''1'', ''S'')] (0, 0, False) = Inr (11, 2, False)
   \<and> sum_list (map points_as_specified [(''1'', ''W''), (''9'', ''C''), (''1'', ''S'')]) = 11
   \<and> optimize_aces 0 11 = 11
   \<and> optimize_aces 1 11 = 21
   \<and> optimize_aces 2 11 = 21
   \<and> calculate_hand_value [(''1'', ''W''), (''9'', ''C''), (''1'', ''S'')] = Inr (21, False)"
proof -
  have h: "count_cards [(''1'', ''W''), (''9'', ''C''), (''1'', ''S'')] (0, 0, False)
           = Inr (11, 2, False)"
    by code_simp
  note t = calculate_hand_value_aces[OF h]
  have pts: "sum_list (map points_as_specified [(''1'', ''W''), (''9'', ''C''), (''1'', ''S'')]) = 11"
    using t[THEN conjunct1] by (rule sym)
  have a0: "optimize_aces 0 11 = 11"
    by (rule t[THEN conjunct2, THEN conjunct2, THEN conjunct2, THEN conjunct1])
  have rec: "optimize_aces (Suc k) 11 =
               (let w = optimize_aces k 11
                in if distance_from_23 (w + 10) < distance_from_23 w \<and> \<bar>w + 10\<bar> \<le> 23
                   then w + 10 else w)" for k
    by (rule t[THEN conjunct2, THEN conjunct2, THEN conjunct2, THEN conjunct2, THEN conjunct1,
               rule_format])
  have a1: "optimize_aces (Suc 0) 11 = 21"
    by (simp only: rec[of 0] a0) (simp add: distance_from_23_def)
  have a2: "optimize_aces (Suc (Suc 0)) 11 = 21"
    by (simp only: rec[of "Suc 0"] a1) (simp add: distance_from_23_def)
  have a1': "optimize_aces 1 11 = 21"
    using a1 by (simp only: One_nat_def)
  have a2': "optimize_aces 2 11 = 21"
    using a2 by (simp only: numeral_2_eq_2)
  have "calculate_hand_value [(''1'', ''W''), (''9'', ''C''), (''1'', ''S'')]
               = Inr (optimize_aces 2 11, \<bar>optimize_aces 2 11\<bar> > 23)"
    using t[THEN conjunct2, THEN conjunct2, THEN conjunct2, THEN conjunct2, THEN conjunct2,
            THEN conjunct2, THEN conjunct1] by simp
  then have res: "calculate_hand_value [(''1'', ''W''), (''9'', ''C''), (''1'', ''S'')]
               = Inr (21, False)"
    by (simp only: a2') simp
  show ?thesis
    by (intro conjI) (fact h, fact pts, fact a0, fact a1', fact a2', fact res)
qed

text \<open>
  C3, as the claim states it, fails. With the Lovers alone the total after the aces is 0,
  both choices are at distance 17, and the code takes \<open>-6\<close>, not \<open>+6\<close>. With two tens and
  the Lovers the total is 20: \<open>+6\<close> is nearer to 23 (distance 3 against 9) but is beyond 23,
  and the code takes \<open>-6\<close>.
\<close>

theorem lovers_counterexample:
  "calculate_hand_value [(''6'', ''T'')] = Inr (- 6, False)
   \<and> distance_from_23 (0 + 6) = distance_from_23 (0 - 6)
   \<and> calculate_hand_value [(''10'', ''W''), (''10'', ''C''), (''6'', ''T'')] = Inr (14, False)
   \<and> distance_from_23 (20 + 6) < distance_from_23 (20 - 6)"
  by code_simp

text \<open>
  C3, amended. For a hand that holds the Lovers, with \<open>a\<close> the total after the aces: the
  Lovers counts \<open>+6\<close> exactly when \<open>a + 6\<close> is not beyond 23 in absolute value and either
  \<open>a - 6\<close> is beyond 23 or \<open>a + 6\<close> is strictly nearer to 23 than \<open>a - 6\<close>; in every other
  case, equal distances included, it counts \<open>-6\<close>.
\<close>

theorem lovers_resolution:
  assumes "count_cards h (0, 0, False) = Inr (base, n, lov)" and "(''6'', ''T'') \<in> set h"
  shows "calculate_hand_value h =
           Inr (let a = optimize_aces n base;
                    v = (if \<bar>a + 6\<bar> \<le> 23
                            \<and> (23 < \<bar>a - 6\<bar> \<or> distance_from_23 (a + 6) < distance_from_23 (a - 6))
                         then a + 6 else a - 6)
                in (v, \<bar>v\<bar> > 23))"
proof -
  from count_cards_flags[OF assms(1)] assms(2) have "lov" by simp
  with assms(1) show ?thesis
    by (simp add: calculate_hand_value_def Let_def resolve_lovers_cases)
qed

theorem lovers_resolution_witness:
  "count_cards [(''8'', ''W''), (''6'', ''T'')] (0, 0, False) = Inr (8, 0, True)
   \<and> (''6'', ''T'') \<in> set [(''8'', ''W''), (''6'', ''T'')]
   \<and> calculate_hand_value [(''8'', ''W''), (''6'', ''T'')] =
           Inr (let a = optimize_aces 0 8;
                    v = (if \<bar>a + 6\<bar> \<le> 23
                            \<and> (23 < \<bar>a - 6\<bar> \<or> distance_from_23 (a + 6) < distance_from_23 (a - 6))
                         then a + 6 else a - 6)
                in (v, \<bar>v\<bar> > 23))"
proof -
  have h: "count_cards [(''8'', ''W''), (''6'', ''T'')] (0, 0, False) = Inr (8, 0, True)"
    by code_simp
  have m: "(''6'', ''T'') \<in> set [(''8'', ''W''), (''6'', ''T'')]" by simp
  from h m lovers_resolution[OF h m] show ?thesis by blast
qed

section \<open>Properties of the betting engine\<close>

lemma reopen_action_length: "length (reopen_action i ps) = length ps"
  by (simp add: reopen_action_def)

lemma reopen_action_nth:
  "j < length ps \<Longrightarrow>
   reopen_action i ps ! j =
     (if j \<noteq> i \<and> \<not> has_folded (ps ! j) \<and> credits (ps ! j) > 0
      then (ps ! j)\<lparr>has_acted := False\<rparr> else ps ! j)"
  by (simp add: reopen_action_def Let_def)

text \<open>
  C5. For a seat \<open>i\<close> of the table and any raise amount, \<open>player_raise\<close> pays the call
  difference plus the amount, or all the seat's credits when it has fewer; the seat's
  credits go down and its bet and the pot go up by what was paid; the table bet becomes the
  raiser's new bet; the raiser's \<open>acted\<close> flag is set; every other seat that has not folded
  and still has credits has its \<open>acted\<close> flag cleared, every other seat is left as it was;
  and nothing else of the table changes.
\<close>

theorem player_raise_effect:
  assumes "i < length (players s)"
  shows "(let p = players s ! i;
              call_difference = table_bet s - current_bet p;
              paid = (if credits p < call_difference + amt then credits p
                      else call_difference + amt);
              s' = snd (player_raise i amt s)
          in fst (player_raise i amt s) = paid
           \<and> length (players s') = length (players s)
           \<and> players s' ! i =
               p\<lparr>credits := credits p - paid, current_bet := current_bet p + paid,
                 has_acted := True\<rparr>
           \<and> pot s' = pot s + paid
           \<and> table_bet s' = current_bet p + paid
           \<and> (\<forall>j < length (players s). j \<noteq> i \<longrightarrow>
                 players s' ! j =
                   (let q = players s ! j
                    in if \<not> has_folded q \<and> 0 < credits q then q\<lparr>has_acted := False\<rparr> else q))
           \<and> s'\<lparr>players := players s, pot := pot s, table_bet := table_bet s\<rparr> = s)"
  using assms
  by (simp add: player_raise_def Let_def map_player_def reopen_action_length reopen_action_nth)

theorem player_raise_effect_witness:
  "1 < length (players raise_example)
   \<and> fst (player_raise 1 10 raise_example) = 5
   \<and> credits (players (snd (player_raise 1 10 raise_example)) ! 1) = 0
   \<and> current_bet (players (snd (player_raise 1 10 raise_example)) ! 1) = 7
   \<and> has_acted (players (snd (player_raise 1 10 raise_example)) ! 1)
   \<and> table_bet (snd (player_raise 1 10 raise_example)) = 7
   \<and> pot (snd (player_raise 1 10 raise_example)) = 11
   \<and> \<not> has_acted (players (snd (player_raise 1 10 raise_example)) ! 0)
   \<and> players (snd (player_raise 1 10 raise_example)) ! 2 = players raise_example ! 2"
proof -
  have h: "1 < length (players raise_example)"
    by (simp add: raise_example_def)
  from h player_raise_effect[OF h, of 10] show ?thesis
    by (simp add: Let_def raise_example_def new_player_def)
qed

section \<open>Properties of the turn\<close>




section \<open>Where the code departs from its own documentation\<close>

lemma ensure_cards_available_cases:
  "ensure_cards_available mix n s =
     (if n \<le> int (length (draw_pile s)) then Inr s
      else if discard_pile s = [] then Inl RuntimeError
      else Inr (s\<lparr>draw_pile := mix (draw_pile s @ discard_pile s), discard_pile := []\<rparr>))"
  by (simp add: ensure_cards_available_def reshuffle_discard_into_draw_def)

text \<open>
  C9. With one card in the draw pile and one in the discard pile, four cards are asked
  for. The two piles together hold fewer than four cards, yet \<open>ensure_cards_available\<close>
  raises nothing: whatever the shuffle, it returns with a draw pile of the two cards.
  It raises only when the discard pile is empty (\<open>ensure_cards_available_cases\<close>).
\<close>

theorem ensure_cards_available_short_piles:
  "int (length (draw_pile low_piles_example) + length (discard_pile low_piles_example)) < 4
   \<and> ensure_cards_available mix 4 low_piles_example =
       Inr (low_piles_example\<lparr>draw_pile := mix [(''2'', ''W''), (''4'', ''W'')],
                              discard_pile := []\<rparr>)"
  by (simp add: ensure_cards_available_def reshuffle_discard_into_draw_def low_piles_example_def)

text \<open>
  C4. Seat 2 posts the big blind all-in, so it has no credits and has not acted. After
  seats 1 and 0 have called, every non-folded seat with credits has acted and matched the
  table bet, so the round is complete in the words of the specification; but
  \<open>is_betting_round_complete\<close> is false, because the test of \<open>has_acted\<close> comes before the
  all-in seat is skipped. \<open>run_betting_round\<close> never asks seat 2 and runs to its safety
  limit of 30 iterations, asking seats 1 and 0 ten times each.
\<close>

theorem all_in_blind_blocks_round:
  "(case collect_blinds short_stack_example of
      Inl e \<Rightarrow> False
    | Inr s1 \<Rightarrow>
        credits (players s1 ! 2) = 0 \<and> \<not> has_acted (players s1 ! 2) \<and>
        (let s3 = snd (player_call 0 (snd (player_call 1 s1)))
         in round_complete_as_specified s3 \<and> \<not> is_betting_round_complete s3) \<and>
        (case run_betting_round quiet_env (\<lambda>s i. call_action) s1 of
           Inl e \<Rightarrow> False
         | Inr (s', asked) \<Rightarrow>
             asked = [1, 0, 1, 0, 1, 0, 1, 0, 1, 0, 1, 0, 1, 0, 1, 0, 1, 0, 1, 0]
             \<and> round_complete_as_specified s' \<and> \<not> is_betting_round_complete s'))"
  by code_simp

text \<open>
  The compulsion effects do leave a hermit alone: a seat whose hermit flag is set is not
  among the targets of The Emperor, nor among the seats The Hierophant and The Chariot
  compel.
\<close>

lemma hermit_not_targeted:
  "is_hermit (players s ! j) \<Longrightarrow>
   j \<notin> set (emperor_targets i s) \<and> j \<notin> set (compelled_seats i s)"
  by (simp add: emperor_targets_def compelled_seats_def)

text \<open>
  C8. In the first betting round seat 1 raises and plays The Hermit, which sets its hermit
  flag; seat 0 calls and the round is complete. The table is reset for the next round and
  the turn card is dealt. The second betting round then asks seat 1 for an action first,
  hermit flag or not: \<open>run_betting_round\<close> skips folded seats and seats without credits only.
\<close>

theorem hermit_seat_is_asked_to_bet:
  "(case dealt_example of
      Inl e \<Rightarrow> False
    | Inr s \<Rightarrow>
        (case run_betting_round example_env hermit_then_call s of
           Inl e \<Rightarrow> False
         | Inr (s1, asked1) \<Rightarrow>
             asked1 = [1, 0] \<and> is_hermit (players s1 ! 1) \<and> is_betting_round_complete s1 \<and>
             (case deal_turn (shuffle example_env) (reset_for_betting_round s1) of
                Inl e \<Rightarrow> False
              | Inr s2 \<Rightarrow>
                  is_hermit (players s2 ! 1) \<and>
                  (case run_betting_round example_env (\<lambda>s i. call_action) s2 of
                     Inl e \<Rightarrow> False
                   | Inr (s3, asked2) \<Rightarrow> asked2 = [1, 0]))))"
  by code_simp

text \<open>
  C1. At the start of the hand the table accounts for 78 cards. Seat 1 raises and plays
  the Wheel of Fortune: it draws trumps 15 to 18, keeps 17 and discards the other three.
  \<open>wheel_of_fortune_effect\<close> has taken the Wheel of Fortune card out of the hand without
  putting it anywhere, so \<open>apply_effect\<close> no longer finds it in the hand and does not move
  it to the removed pile: the card is in no pile and no hand, and the table accounts for
  77 cards.
\<close>

theorem wheel_of_fortune_loses_its_card:
  "(case dealt_example of
      Inl e \<Rightarrow> False
    | Inr s \<Rightarrow>
        total_cards_accounted_for s = 78 \<and>
        hand (players s ! 1) = [(''9'', ''T''), (''10'', ''T'')] \<and>
        (case execute_player_turn example_env 1 wheel_action s of
           Inl e \<Rightarrow> False
         | Inr (still_in, s') \<Rightarrow>
             total_cards_accounted_for s' = 77 \<and>
             hand (players s' ! 1) = [(''9'', ''T''), (''17'', ''T'')] \<and>
             removed_pile s' = [] \<and>
             (''10'', ''T'') \<notin> set (all_cards s')))"
  by code_simp

section \<open>The interrupt of The Hanged Man\<close>








section \<open>Properties of the showdown\<close>

lemma key_hd_sort_key:
  assumes "xs \<noteq> []"
  shows "f (hd (sort_key f xs)) = Min (f ` set xs)"
proof -
  let ?ys = "sort_key f xs"
  from assms have ne: "?ys \<noteq> []"
    by (metis length_sort length_0_conv)
  then obtain y ys where ys: "?ys = y # ys" by (cases ?ys) auto
  have srt: "sorted (map f ?ys)" by simp
  have "y \<in> set xs" using ys by (metis list.set_intros(1) set_sort)
  moreover have "\<forall>x\<in>set xs. f y \<le> f x"
  proof
    fix x assume "x \<in> set xs"
    then have "x \<in> set (y # ys)" using ys by (metis set_sort)
    with srt ys show "f y \<le> f x" by auto
  qed
  ultimately have "Min (f ` set xs) = f y"
    by (intro Min_eqI) auto
  with ys show ?thesis by simp
qed

lemma filter_sort_key_map:
  "filter (\<lambda>y. f y = k) (sort_key f (map g xs)) = map g (filter (\<lambda>x. f (g x) = k) xs)"
  by (simp add: sort_key_stable filter_map comp_def)

lemma hd_sort_key_map:
  assumes "xs \<noteq> []"
  shows "hd (sort_key f (map g xs)) = g (hd (filter (\<lambda>x. f (g x) = Min ((\<lambda>x. f (g x)) ` set xs)) xs))"
proof -
  let ?k = "Min ((\<lambda>x. f (g x)) ` set xs)"
  let ?ys = "sort_key f (map g xs)"
  from assms have m: "map g xs \<noteq> []" by simp
  have k: "f (hd ?ys) = ?k"
    using key_hd_sort_key[OF m, of f] by (simp add: image_image)
  from m have "?ys \<noteq> []" by (metis length_sort length_0_conv)
  then obtain y ys where ys: "?ys = y # ys" by (cases ?ys) auto
  with k have "f y = ?k" by simp
  then have "hd (filter (\<lambda>y. f y = ?k) ?ys) = y" using ys by simp
  then have "hd (map g (filter (\<lambda>x. f (g x) = ?k) xs)) = y"
    by (simp add: filter_sort_key_map)
  moreover have "filter (\<lambda>x. f (g x) = ?k) xs \<noteq> []"
  proof -
    have "?k \<in> (\<lambda>x. f (g x)) ` set xs" using assms by (intro Min_in) auto
    then show ?thesis by (auto simp: filter_empty_conv)
  qed
  ultimately show ?thesis using ys by (simp add: hd_map)
qed

lemma Min_uminus_image:
  fixes f :: "'a \<Rightarrow> int"
  assumes "finite A" "A \<noteq> {}"
  shows "Min ((\<lambda>x. - f x) ` A) = - Max (f ` A)"
proof (rule Min_eqI)
  show "finite ((\<lambda>x. - f x) ` A)" using assms by simp
  show "\<And>y. y \<in> (\<lambda>x. - f x) ` A \<Longrightarrow> - Max (f ` A) \<le> y"
    using assms by auto
  have "Max (f ` A) \<in> f ` A" using assms by (intro Max_in) auto
  then show "- Max (f ` A) \<in> (\<lambda>x. - f x) ` A" by auto
qed

lemma score_players_eq:
  assumes "\<forall>i\<in>set js. calculate_hand_value (hand (players s ! i)) = Inr (val i, bust i)"
  shows "score_players s js =
           Inr (map (\<lambda>i. (i, val i, distance_from_23 (val i))) (filter (\<lambda>i. \<not> bust i) js))"
  using assms by (induction js) (auto simp: distance_from_23_def)

lemma high_cards_eq:
  assumes "\<forall>i\<in>set js. get_highest_card_in_hand (hand (players s ! i)) = Inr (hv i, hs i)"
  shows "high_cards s (map (\<lambda>i. (i, val i, dd i)) js) = Inr (map (\<lambda>i. (i, hv i, hs i)) js)"
  using assms by (induction js) auto


lemma get_active_players_reset [simp]:
  "get_active_players (s\<lparr>tiebreaker_info := x\<rparr>) = get_active_players s"
  by (simp add: get_active_players_def)

lemma score_players_reset [simp]:
  "score_players (s\<lparr>tiebreaker_info := x\<rparr>) js = score_players s js"
  by (induction js) (auto split: sum.splits)

lemma high_cards_reset [simp]:
  "high_cards (s\<lparr>tiebreaker_info := x\<rparr>) xs = high_cards s xs"
  by (induction xs) (auto split: sum.splits)

text \<open>
  C6, as the claim states it, fails in its last sentence. Seat 1 is the only seat that has
  not folded and its hand is busted (two kings, 28), yet \<open>determine_winner\<close> returns seat 1:
  the test for a single non-folded seat comes before any hand is evaluated.
\<close>

theorem busted_sole_seat_counterexample:
  "get_active_players busted_sole_example = [1]
   \<and> calculate_hand_value (hand (players busted_sole_example ! 1)) = Inr (28, True)
   \<and> determine_winner busted_sole_example = Inr (Some 1, busted_sole_example)"
  by code_simp

text \<open>
  C6, amended. Let \<open>val\<close>, \<open>bust\<close> give the value and the bust flag of every non-folded
  seat's hand, and \<open>hv\<close>, \<open>hs\<close> the value and suit of its highest card. With no non-folded
  seat there is no winner. A sole non-folded seat wins, busted or not. With two or more
  non-folded seats the candidates are exactly the non-busted ones: without a candidate there
  is no winner; otherwise the seats at minimal distance from 23 are tied, and a single such
  seat wins with no tie-break recorded; among several, the seats with the greatest highest
  card remain, and a single such seat wins with \<open>high_card\<close> recorded; among several, the
  first seat in seat order with the greatest suit rank (Wands over Cups over Swords over
  Disks over anything else) wins with \<open>suit\<close> recorded. The record lists the names and values
  of the seats tied on distance, in seat order.
\<close>

theorem determine_winner_amended:
  assumes vals: "\<forall>i\<in>set (get_active_players s).
                   calculate_hand_value (hand (players s ! i)) = Inr (val i, bust i)"
      and highs: "\<forall>i\<in>set (get_active_players s).
                   get_highest_card_in_hand (hand (players s ! i)) = Inr (hv i, hs i)"
  shows "(let s0 = s\<lparr>tiebreaker_info := None\<rparr>;
              active = get_active_players s;
              cands = filter (\<lambda>i. \<not> bust i) active;
              d = (\<lambda>i. distance_from_23 (val i));
              tied = filter (\<lambda>i. d i = Min (d ` set cands)) cands;
              still = filter (\<lambda>i. hv i = Max (hv ` set tied)) tied;
              rank = (\<lambda>i. suit_ranking (hs i));
              top = filter (\<lambda>i. rank i = Max (rank ` set still)) still;
              names = map (\<lambda>i. name (players s ! i)) tied;
              vals = map val tied
          in determine_winner s =
               Inr (if active = [] then (None, s0)
                    else if length active = 1 then (Some (hd active), s0)
                    else if cands = [] then (None, s0)
                    else if length tied = 1 then (Some (hd tied), s0)
                    else if length still = 1 then
                      (Some (hd still),
                       s0\<lparr>tiebreaker_info := Some (High_card names vals (hv (hd still)))\<rparr>)
                    else
                      (Some (hd top),
                       s0\<lparr>tiebreaker_info :=
                            Some (Suit names vals (suit_names (hs (hd top))))\<rparr>)))"
proof -
  define active where "active = get_active_players s"
  define cands where "cands = filter (\<lambda>i. \<not> bust i) active"
  define d where "d = (\<lambda>i. distance_from_23 (val i))"
  define tied where "tied = filter (\<lambda>i. d i = Min (d ` set cands)) cands"
  define still where "still = filter (\<lambda>i. hv i = Max (hv ` set tied)) tied"
  define rank where "rank = (\<lambda>i. suit_ranking (hs i))"
  define top where "top = filter (\<lambda>i. rank i = Max (rank ` set still)) still"
  define g where "g = (\<lambda>i. (i, val i, d i))"
  define h where "h = (\<lambda>i. (i, hv i, hs i))"
  have g_proj [simp]: "fst (g i) = i" "fst (snd (g i)) = val i" "snd (snd (g i)) = d i" for i
    by (simp_all add: g_def)
  have h_proj [simp]: "fst (h i) = i" "fst (snd (h i)) = hv i" "snd (snd (h i)) = hs i" for i
    by (simp_all add: h_def)
  have scores: "score_players s active = Inr (map g cands)"
    using score_players_eq[OF vals] by (simp add: active_def cands_def g_def d_def)
  have tied_sub: "set tied \<subseteq> set active"
    by (auto simp: tied_def cands_def)
  have hcs: "high_cards s (map g tied) = Inr (map h tied)"
    unfolding g_def h_def
    by (rule high_cards_eq) (use highs tied_sub in \<open>auto simp: active_def\<close>)
  have best: "cands \<noteq> [] \<Longrightarrow>
      snd (snd (hd (sort_key (\<lambda>x. snd (snd x)) (map g cands)))) = Min (d ` set cands)"
    using key_hd_sort_key[of "map g cands" "\<lambda>x. snd (snd x)"]
    by (simp add: image_image)
  have tied_eq: "filter (\<lambda>ps. snd (snd ps) = k) (sort_key (\<lambda>x. snd (snd x)) (map g cands))
                 = map g (filter (\<lambda>i. d i = k) cands)" for k
    using filter_sort_key_map[of "\<lambda>x. snd (snd x)" k g cands] by simp
  have tied_ne: "cands \<noteq> [] \<Longrightarrow> tied \<noteq> []"
  proof -
    assume "cands \<noteq> []"
    then have "Min (d ` set cands) \<in> d ` set cands" by (intro Min_in) auto
    then show ?thesis by (auto simp: tied_def filter_empty_conv)
  qed
  have highest: "tied \<noteq> [] \<Longrightarrow>
      fst (snd (hd (sort_key (\<lambda>x. - fst (snd x)) (map h tied)))) = Max (hv ` set tied)"
  proof -
    assume ne: "tied \<noteq> []"
    then have "- fst (snd (hd (sort_key (\<lambda>x. - fst (snd x)) (map h tied))))
               = Min ((\<lambda>i. - hv i) ` set tied)"
      using key_hd_sort_key[of "map h tied" "\<lambda>x. - fst (snd x)"]
      by (simp add: image_image)
    also have "\<dots> = - Max (hv ` set tied)"
      using ne by (intro Min_uminus_image) auto
    finally show ?thesis by simp
  qed
  have still_eq: "filter (\<lambda>phc. fst (snd phc) = k) (sort_key (\<lambda>x. - fst (snd x)) (map h tied))
                 = map h (filter (\<lambda>i. hv i = k) tied)" for k
  proof -
    have "filter (\<lambda>phc. fst (snd phc) = k) (sort_key (\<lambda>x. - fst (snd x)) (map h tied))
          = filter (\<lambda>y. - fst (snd y) = - k) (sort_key (\<lambda>x. - fst (snd x)) (map h tied))"
      by simp
    also have "\<dots> = map h (filter (\<lambda>i. - fst (snd (h i)) = - k) tied)"
      by (rule filter_sort_key_map)
    finally show ?thesis by simp
  qed
  have still_ne: "tied \<noteq> [] \<Longrightarrow> still \<noteq> []"
  proof -
    assume "tied \<noteq> []"
    then have "Max (hv ` set tied) \<in> hv ` set tied" by (intro Max_in) auto
    then show ?thesis by (auto simp: still_def filter_empty_conv)
  qed
  have winner: "still \<noteq> [] \<Longrightarrow>
      hd (sort_key (\<lambda>x. - suit_ranking (snd (snd x))) (map h still)) = h (hd top)"
  proof -
    assume ne: "still \<noteq> []"
    have m: "Min ((\<lambda>i. - rank i) ` set still) = - Max (rank ` set still)"
      using ne by (intro Min_uminus_image) auto
    from hd_sort_key_map[OF ne, of "\<lambda>x. - suit_ranking (snd (snd x))" h]
    show ?thesis
      using m by (simp add: rank_def top_def)
  qed
  show ?thesis
  proof (cases "active = []")
    case True
    then show ?thesis
      by (simp add: determine_winner_def Let_def active_def)
  next
    case ne: False
    show ?thesis
    proof (cases "length active = 1")
      case True
      with ne show ?thesis
        by (simp add: determine_winner_def Let_def active_def)
    next
      case many: False
      show ?thesis
      proof (cases "cands = []")
        case True
        with ne many scores show ?thesis
          by (simp add: determine_winner_def Let_def active_def[symmetric] cands_def[symmetric])
      next
        case c: False
        note t = tied_ne[OF c]
        note st = still_ne[OF t]
        have r: "determine_winner s =
               Inr (if length tied = 1 then (Some (hd tied), s\<lparr>tiebreaker_info := None\<rparr>)
                    else if length still = 1 then
                      (Some (hd still),
                       s\<lparr>tiebreaker_info := Some (High_card (map (\<lambda>i. name (players s ! i)) tied)
                                 (map val tied) (hv (hd still)))\<rparr>)
                    else
                      (Some (hd top),
                       s\<lparr>tiebreaker_info :=
                            Some (Suit (map (\<lambda>i. name (players s ! i)) tied)
                                 (map val tied) (suit_names (hs (hd top))))\<rparr>))"
          using ne many c t st scores hcs
          by (simp add: determine_winner_def Let_def active_def[symmetric] best tied_eq
              tied_def[symmetric] highest still_eq still_def[symmetric] winner hd_map comp_def)
        from ne many c show ?thesis
          unfolding r
          by (simp add: Let_def active_def cands_def d_def tied_def still_def rank_def top_def)
      qed
    qed
  qed
qed


lemma showdown_example_active: "get_active_players showdown_example = [0, 1, 2, 3]"
  by code_simp

theorem determine_winner_amended_witness:
  "list_all (\<lambda>i. calculate_hand_value (hand (players showdown_example ! i))
                      = Inr ([23, 23, 28, 20] ! i, i = 2))
     (get_active_players showdown_example)
   \<and> list_all (\<lambda>i. get_highest_card_in_hand (hand (players showdown_example ! i))
                      = Inr ([14, 14, 14, 10] ! i, [''C'', ''W'', ''S'', ''W''] ! i))
       (get_active_players showdown_example)
   \<and> determine_winner showdown_example =
       Inr (Some 1,
            showdown_example\<lparr>tiebreaker_info := Some (Suit [''Ada'', ''Bo''] [23, 23] ''Wands'')\<rparr>)"
proof -
  have v: "list_all (\<lambda>i. calculate_hand_value (hand (players showdown_example ! i))
                      = Inr ([23, 23, 28, 20] ! i, i = 2))
             (get_active_players showdown_example)"
    by code_simp
  have h: "list_all (\<lambda>i. get_highest_card_in_hand (hand (players showdown_example ! i))
                      = Inr ([14, 14, 14, 10] ! i, [''C'', ''W'', ''S'', ''W''] ! i))
             (get_active_players showdown_example)"
    by code_simp
  have n: "map (\<lambda>i. name (players showdown_example ! i)) [0, 1] = [''Ada'', ''Bo'']"
    by code_simp
  from determine_winner_amended[OF v[unfolded list_all_iff] h[unfolded list_all_iff]] n
  have "determine_winner showdown_example =
       Inr (Some 1,
            showdown_example\<lparr>tiebreaker_info := Some (Suit [''Ada'', ''Bo''] [23, 23] ''Wands'')\<rparr>)"
    by (simp add: Let_def showdown_example_active distance_from_23_def suit_ranking_def
        suit_names_def)
  with v h show ?thesis by blast
qed

section \<open>Further facts: round completion and the card count\<close>

text \<open>
  What \<open>is_betting_round_complete\<close> computes: at most one seat has not folded, or every
  non-folded seat has acted and, unless it has no credits left, has reached the table bet.
\<close>

lemma all_acted_and_matched_iff:
  "all_acted_and_matched bet ps =
     list_all (\<lambda>p. has_acted p \<and> (credits p = 0 \<or> bet \<le> current_bet p)) ps"
  by (induction ps) auto

lemma is_betting_round_complete_iff:
  "is_betting_round_complete s =
     (length (filter (\<lambda>p. \<not> has_folded p) (players s)) \<le> 1
      \<or> list_all (\<lambda>p. has_folded p
                        \<or> (has_acted p \<and> (credits p = 0 \<or> table_bet s \<le> current_bet p)))
           (players s))"
  by (auto simp: is_betting_round_complete_def all_acted_and_matched_iff list_all_iff Let_def)

text \<open>
  Moving a held card to the removed pile keeps the card count, so The Universe keeps it.
  The Wheel of Fortune does not: for a seat that is not human, with four distinct cards on
  top of the draw pile, \<open>apply_effect\<close> leaves one card fewer whenever it succeeds.
\<close>

lemma sum_list_hands_update:
  assumes "i < length ps"
  shows "sum_list (map (\<lambda>p. length (hand p)) (ps[i := q])) + length (hand (ps ! i))
         = sum_list (map (\<lambda>p. length (hand p)) ps) + length (hand q)"
  using assms
proof (induction ps arbitrary: i)
  case Nil
  then show ?case by simp
next
  case (Cons p ps)
  then show ?case by (cases i) auto
qed

lemma total_remove_to_removed_pile:
  assumes "i < length (players s)" and "c \<in> set (hand (players s ! i))"
  shows "total_cards_accounted_for (remove_to_removed_pile i c s) = total_cards_accounted_for s"
proof -
  let ?q = "(players s ! i)\<lparr>hand := remove1 c (hand (players s ! i))\<rparr>"
  from assms(2) have l: "Suc (length (hand ?q)) = length (hand (players s ! i))"
    by (simp add: length_remove1) (metis Suc_pred length_pos_if_in_set)
  from sum_list_hands_update[OF assms(1), of ?q] l
  show ?thesis
    by (simp add: total_cards_accounted_for_def remove_to_removed_pile_def map_player_def)
qed

lemma total_universe_effect:
  assumes "i < length (players s)"
  shows "total_cards_accounted_for (universe_effect i s) = total_cards_accounted_for s"
  using assms by (simp add: universe_effect_def Let_def total_remove_to_removed_pile)


lemma draw_cards_take:
  "k \<le> length (draw_pile s) \<Longrightarrow>
   draw_cards k s = Inr (take k (draw_pile s), s\<lparr>draw_pile := drop k (draw_pile s)\<rparr>)"
proof (induction k arbitrary: s)
  case 0
  then show ?case by simp
next
  case (Suc k)
  then obtain c cs where dp: "draw_pile s = c # cs" by (cases "draw_pile s") auto
  with Suc.prems have "k \<le> length (draw_pile (s\<lparr>draw_pile := cs\<rparr>))" by simp
  from Suc.IH[OF this] dp show ?case by (simp add: draw_def)
qed

lemma combinations_sub:
  "ys \<in> set (combinations xs k) \<Longrightarrow> set ys \<subseteq> set xs \<and> (distinct xs \<longrightarrow> distinct ys)"
proof (induction xs k arbitrary: ys rule: combinations.induct)
  case (1 xs)
  then show ?case by simp
next
  case (2 k)
  then show ?case by simp
next
  case (3 x xs k)
  from "3.prems" consider
    (head) zs where "ys = x # zs" "zs \<in> set (combinations xs k)"
    | (tail) "ys \<in> set (combinations xs (Suc k))"
    by auto
  then show ?case
  proof cases
    case head
    with "3.IH"(1)[of zs] show ?thesis by auto
  next
    case tail
    with "3.IH"(2)[of ys] show ?thesis by auto
  qed
qed

lemma best_keep_member:
  "best_keep h cands (b, d) = Inr (kept, d') \<Longrightarrow> kept = b \<or> kept \<in> set cands"
proof (induction cands arbitrary: b d)
  case Nil
  then show ?case by simp
next
  case (Cons c cs)
  then show ?case by (auto split: sum.splits if_splits)
qed

lemma choose_wheel_sub:
  assumes "choose_wheel_of_fortune_cards h drawn = Inr kept"
  shows "set kept \<subseteq> set drawn \<and> (distinct drawn \<longrightarrow> distinct kept)"
proof -
  from assms obtain d d' where
    "best_keep h (concat (map (combinations drawn) [0..<length drawn + 1])) ([], d) = Inr (kept, d')"
    by (auto simp: choose_wheel_of_fortune_cards_def split: sum.splits prod.splits)
  from best_keep_member[OF this] show ?thesis
    by (auto dest: combinations_sub)
qed

lemma kept_and_discarded:
  assumes "distinct drawn" and "distinct kept" and "set kept \<subseteq> set drawn"
  shows "length kept + length (filter (\<lambda>c. c \<notin> set kept) drawn) = length drawn"
proof -
  have "set (filter (\<lambda>c. c \<in> set kept) drawn) = set kept" using assms(3) by auto
  moreover have "distinct (filter (\<lambda>c. c \<in> set kept) drawn)" using assms(1) by simp
  ultimately have "length (filter (\<lambda>c. c \<in> set kept) drawn) = length kept"
    using assms(2) by (metis distinct_card)
  with sum_length_filter_compl[of "\<lambda>c. c \<in> set kept" drawn] show ?thesis by simp
qed

lemma wheel_of_fortune_effect_total:
  assumes seat: "i < length (players s)"
      and ai: "\<not> is_human (players s ! i)"
      and enough: "4 \<le> length (draw_pile s)"
      and dist: "distinct (take 4 (draw_pile s))"
      and ok: "wheel_of_fortune_effect ev i s = Inr s'"
  shows "total_cards_accounted_for s' + 1 = total_cards_accounted_for s
         \<and> length (players s') = length (players s) \<and> removed_pile s' = removed_pile s"
proof -
  let ?drawn = "take 4 (draw_pile s)"
  let ?s2 = "s\<lparr>draw_pile := drop 4 (draw_pile s)\<rparr>"
  let ?h = "remove1 (''10'', ''T'') (hand (players s ! i))"
  have e: "ensure_cards_available (shuffle ev) 4 s = Inr s"
    using enough by (simp add: ensure_cards_available_def)
  have d: "draw_cards 4 s = Inr (?drawn, ?s2)"
    using draw_cards_take[of 4 s] enough by simp
  from ok e d seat ai have held: "(''10'', ''T'') \<in> set (hand (players s ! i))"
    by (auto simp: wheel_of_fortune_effect_def Let_def split: if_splits)
  from ok e d seat ai held obtain kept where
    k: "choose_wheel_of_fortune_cards ?h ?drawn = Inr kept" and
    s': "s' = (map_player i (\<lambda>p. p\<lparr>hand := hand p @ kept\<rparr>)
                (map_player i (\<lambda>p. p\<lparr>hand := remove1 (''10'', ''T'') (hand p)\<rparr>) ?s2))
              \<lparr>discard_pile := discard_pile s @ filter (\<lambda>c. c \<notin> set kept) ?drawn\<rparr>"
    by (auto simp: wheel_of_fortune_effect_def Let_def map_player_def split: sum.splits)
  from choose_wheel_sub[OF k] dist have "distinct kept" "set kept \<subseteq> set ?drawn" by auto
  from kept_and_discarded[OF dist this] enough
  have cnt: "length kept + length (filter (\<lambda>c. c \<notin> set kept) ?drawn) = 4" by simp
  from held have hl: "Suc (length ?h) = length (hand (players s ! i))"
    by (simp add: length_remove1) (metis Suc_pred length_pos_if_in_set)
  let ?q = "(players s ! i)\<lparr>hand := ?h @ kept\<rparr>"
  have pl: "players s' = (players s)[i := ?q]"
    using seat by (simp add: s' map_player_def)
  from sum_list_hands_update[OF seat, of ?q] hl
  have "sum_list (map (\<lambda>p. length (hand p)) (players s')) + 1
        = sum_list (map (\<lambda>p. length (hand p)) (players s)) + length kept"
    by (simp add: pl)
  with cnt enough show ?thesis
    by (simp add: total_cards_accounted_for_def s' map_player_def)
qed


lemma wheel_lookup: "get_trionfi_effect (''10'', ''T'') = Some Wheel_of_Fortune"
  by code_simp

lemma apply_wheel_of_fortune_total:
  assumes seat: "i < length (players s)"
      and ai: "\<not> is_human (players s ! i)"
      and enough: "4 \<le> length (draw_pile s)"
      and dist: "distinct (take 4 (draw_pile s))"
      and ok: "apply_effect ev Wheel_of_Fortune i s = Inr s'"
  shows "total_cards_accounted_for s' + 1 = total_cards_accounted_for s"
proof -
  from ok obtain s1 where
    w: "wheel_of_fortune_effect ev i s = Inr s1" and
    s': "s' = (if (py_str 10, ''T'') \<in> set (hand (players s1 ! i))
               then remove_to_removed_pile i (py_str 10, ''T'') s1 else s1)"
    by (auto simp: apply_effect_def Wheel_of_Fortune_def TrionfiEffect_def run_effect_def Let_def
        split: sum.splits if_splits)
  from wheel_of_fortune_effect_total[OF seat ai enough dist w]
  have t: "total_cards_accounted_for s1 + 1 = total_cards_accounted_for s"
    and l: "i < length (players s1)" using seat by auto
  show ?thesis
  proof (cases "(py_str 10, ''T'') \<in> set (hand (players s1 ! i))")
    case True
    with s' total_remove_to_removed_pile[OF l True] t show ?thesis by simp
  next
    case False
    with s' t show ?thesis by simp
  qed
qed

end
